theory Spec2Isabelle
  imports Complex_Main
begin

section \<open>Python strings\<close>

text \<open>
  A Python \<open>str\<close> is a sequence of code points and \<open>len\<close> counts code points.
  Here a string is a \<open>char list\<close> in which every \<open>char\<close> stands for one code
  point of the range 0..255 (Latin-1); strings with code points beyond that range are
  outside the model. The character tests below are those of the Python built-ins,
  restricted to that range.
\<close>

definition isdigit :: "char \<Rightarrow> bool" where
  \<comment> \<open>\<open>str.isdigit\<close> on one code point: the decimal digits and the superscript digits
      U+00B2, U+00B3, U+00B9 (Numeric\_Type=Digit).\<close>
  "isdigit c = (let n = of_char c :: nat in
      (48 \<le> n \<and> n \<le> 57) \<or> n = 178 \<or> n = 179 \<or> n = 185)"

section \<open>Local store: the \<open>clientes\<close> table\<close>

text \<open>
  A table of the embedded SQLite store is the list of its rows in rowid order together
  with the \<open>AUTOINCREMENT\<close> counter (the largest id handed out so far). Timestamps are
  natural numbers; the wall clock is the argument \<open>now\<close> of every operation that reads it.
\<close>

record cliente =
  cliente_id :: nat
  nome :: string
  cnpj :: string
  is_active :: bool
  created_at :: nat
  updated_at :: nat

record clientes_table =
  clientes :: "cliente list"
  clientes_seq :: nat

definition cnpj_limpo :: "string \<Rightarrow> string" where
  \<comment> \<open>\<open>''.join(filter(str.isdigit, cnpj))\<close>\<close>
  "cnpj_limpo s = filter isdigit s"

definition create_cliente ::
  "nat \<Rightarrow> string \<Rightarrow> string \<Rightarrow> clientes_table \<Rightarrow> bool \<times> clientes_table" where
  \<comment> \<open>The \<open>INSERT\<close> fails with \<open>IntegrityError\<close> when another row already holds the
      CNPJ (\<open>cnpj TEXT UNIQUE\<close>); the handler returns \<open>False\<close>.\<close>
  "create_cliente now nm cn t =
     (let limpo = cnpj_limpo cn in
      if length limpo \<noteq> 14 then (False, t)
      else if \<exists>r \<in> set (clientes t). cnpj r = limpo then (False, t)
      else (True,
            t\<lparr>clientes := clientes t @
                 [\<lparr>cliente_id = Suc (clientes_seq t), nome = nm, cnpj = limpo,
                   is_active = True, created_at = now, updated_at = now\<rparr>],
               clientes_seq := Suc (clientes_seq t)\<rparr>))"

definition update_cliente ::
  "nat \<Rightarrow> nat \<Rightarrow> string \<Rightarrow> string \<Rightarrow> clientes_table \<Rightarrow> bool \<times> clientes_table" where
  \<comment> \<open>\<open>UPDATE clientes SET nome, cnpj, updated_at WHERE id = ?\<close>. The statement raises
      (and the handler returns \<open>False\<close>) only when a row is updated and its new CNPJ is
      already held by a different row.\<close>
  "update_cliente now cid nm cn t =
     (let limpo = cnpj_limpo cn in
      if length limpo \<noteq> 14 then (False, t)
      else if (\<exists>r \<in> set (clientes t). cliente_id r = cid) \<and>
              (\<exists>r \<in> set (clientes t). cliente_id r \<noteq> cid \<and> cnpj r = limpo)
        then (False, t)
      else (True,
            t\<lparr>clientes := map (\<lambda>r. if cliente_id r = cid
                                   then r\<lparr>nome := nm, cnpj := limpo, updated_at := now\<rparr>
                                   else r) (clientes t)\<rparr>))"

definition delete_cliente :: "nat \<Rightarrow> clientes_table \<Rightarrow> bool \<times> clientes_table" where
  \<comment> \<open>\<open>UPDATE clientes SET is_active = 0 WHERE id = ?\<close>\<close>
  "delete_cliente cid t =
     (True,
      t\<lparr>clientes := map (\<lambda>r. if cliente_id r = cid then r\<lparr>is_active := False\<rparr> else r)
                        (clientes t)\<rparr>)"

definition format_cnpj :: "string \<Rightarrow> string" where
  \<comment> \<open>The slices \<open>[:2]\<close>, \<open>[2:5]\<close>, \<open>[5:8]\<close>, \<open>[8:12]\<close>, \<open>[12:]\<close> of the cleaned string.\<close>
  "format_cnpj cn =
     (let limpo = cnpj_limpo cn in
      if length limpo \<noteq> 14 then cn
      else take 2 limpo @ ''.'' @ take 3 (drop 2 limpo) @ ''.'' @ take 3 (drop 5 limpo)
           @ ''/'' @ take 4 (drop 8 limpo) @ ''-'' @ drop 12 limpo)"

section \<open>Exceptions\<close>

text \<open>
  Every \<open>raise\<close> of the source and of the libraries it calls is a value of this type;
  a function that can raise returns \<open>exn + 'a\<close> with \<open>Inl\<close> for the exception.
\<close>

datatype exn =
    KeyError string
  | ValueError string
  | IntegrityError string
  | DatabaseError "nat option" string
  | InvalidToken
  | Exception string

fun exn_str :: "exn \<Rightarrow> string" where
  \<comment> \<open>\<open>str(e)\<close>; \<open>str(KeyError('host'))\<close> is the quoted key.\<close>
  "exn_str (KeyError k) = [CHR 0x27] @ k @ [CHR 0x27]"
| "exn_str (ValueError m) = m"
| "exn_str (IntegrityError m) = m"
| "exn_str (DatabaseError c m) = m"
| "exn_str InvalidToken = []"
| "exn_str (Exception m) = m"

section \<open>Encryption service\<close>

text \<open>
  The Fernet cipher and bcrypt belong to external libraries. They are parameters of the
  model: a record of the library calls with their possible exceptions, so that every
  theorem holds whatever the libraries compute.
\<close>

record cipher =
  fernet_encrypt :: "string \<Rightarrow> exn + string"
  fernet_decrypt :: "string \<Rightarrow> exn + string"

definition encrypt :: "cipher \<Rightarrow> string \<Rightarrow> exn + string" where
  "encrypt c plaintext = (if plaintext = [] then Inr [] else fernet_encrypt c plaintext)"

definition decrypt :: "cipher \<Rightarrow> string \<Rightarrow> exn + string" where
  "decrypt c ciphertext = (if ciphertext = [] then Inr [] else fernet_decrypt c ciphertext)"

record bcrypt =
  hashpw :: "string \<Rightarrow> string \<Rightarrow> exn + string"
  checkpw :: "string \<Rightarrow> string \<Rightarrow> exn + bool"

definition hash_password :: "bcrypt \<Rightarrow> string \<Rightarrow> string \<Rightarrow> exn + string" where
  \<comment> \<open>\<open>salt\<close> is the value \<open>bcrypt.gensalt(rounds=12)\<close> returned for this call.\<close>
  "hash_password bc salt password = hashpw bc password salt"

definition verify_password :: "bcrypt \<Rightarrow> string \<Rightarrow> string \<Rightarrow> exn + bool" where
  "verify_password bc password hashed = checkpw bc password hashed"

section \<open>Local store: operator accounts\<close>

record usuario =
  usuario_id :: nat
  username :: string
  password_hash :: string
  nome_completo :: "string option"
  email :: "string option"
  usr_is_active :: bool
  usr_created_at :: nat
  last_login :: "nat option"

definition msg_usuario_nao_encontrado :: string where
  "msg_usuario_nao_encontrado = ''Usu'' @ [CHR 0xE1] @ ''rio n'' @ [CHR 0xE3] @ ''o encontrado''"

definition msg_senha_incorreta :: string where
  "msg_senha_incorreta = ''Senha atual incorreta''"

definition msg_senha_alterada :: string where
  "msg_senha_alterada = ''Senha alterada com sucesso!''"

definition msg_erro_alterar :: "exn \<Rightarrow> string" where
  "msg_erro_alterar e = ''Erro ao alterar senha: '' @ exn_str e"

definition change_password ::
  "bcrypt \<Rightarrow> string \<Rightarrow> string \<Rightarrow> string \<Rightarrow> string \<Rightarrow> usuario list
     \<Rightarrow> (bool \<times> string) \<times> usuario list" where
  \<comment> \<open>\<open>SELECT id, password_hash FROM usuarios WHERE username = ? AND is_active = 1\<close>,
      \<open>fetchone\<close>, verification, then \<open>UPDATE usuarios SET password_hash = ? WHERE id = ?\<close>.
      An exception of the library calls is caught by the \<open>except Exception\<close> handler.\<close>
  "change_password bc salt uname old_password new_password us =
     (case find (\<lambda>u. username u = uname \<and> usr_is_active u) us of
        None \<Rightarrow> ((False, msg_usuario_nao_encontrado), us)
      | Some user \<Rightarrow>
          (case verify_password bc old_password (password_hash user) of
             Inl e \<Rightarrow> ((False, msg_erro_alterar e), us)
           | Inr False \<Rightarrow> ((False, msg_senha_incorreta), us)
           | Inr True \<Rightarrow>
               (case hash_password bc salt new_password of
                  Inl e \<Rightarrow> ((False, msg_erro_alterar e), us)
                | Inr new_hash \<Rightarrow>
                    ((True, msg_senha_alterada),
                     map (\<lambda>u. if usuario_id u = usuario_id user
                               then u\<lparr>password_hash := new_hash\<rparr> else u) us))))"

section \<open>Local store: the cloud connection configuration\<close>

record config_row =
  cfg_id :: nat
  host :: string
  port :: int
  database_name :: string
  cfg_username :: string
  password_encrypted :: string
  use_ssl :: bool
  cfg_is_active :: bool
  cfg_created_at :: nat
  cfg_updated_at :: nat

record config_table =
  config_oriontax :: "config_row list"
  config_seq :: nat

text \<open>The dictionary \<open>get_oriontax_config\<close> returns: the row without
  \<open>password_encrypted\<close> and with the decrypted \<open>password\<close>.\<close>

record config_dict =
  d_id :: nat
  d_host :: string
  d_port :: int
  d_database_name :: string
  d_username :: string
  d_password :: string
  d_use_ssl :: bool
  d_is_active :: bool
  d_created_at :: nat
  d_updated_at :: nat

definition save_oriontax_config ::
  "cipher \<Rightarrow> nat \<Rightarrow> string \<Rightarrow> int \<Rightarrow> string \<Rightarrow> string \<Rightarrow> string \<Rightarrow> bool
     \<Rightarrow> config_table \<Rightarrow> bool \<times> config_table" where
  \<comment> \<open>\<open>UPDATE config_oriontax SET is_active = 0\<close>, then one \<open>INSERT\<close> whose
      \<open>is_active\<close>, \<open>created_at\<close> and \<open>updated_at\<close> take the column defaults.\<close>
  "save_oriontax_config c now h p dbn usr pw ssl t =
     (case encrypt c pw of
        Inl e \<Rightarrow> (False, t)
      | Inr password_enc \<Rightarrow>
          (True,
           t\<lparr>config_oriontax :=
                map (\<lambda>r. r\<lparr>cfg_is_active := False\<rparr>) (config_oriontax t) @
                [\<lparr>cfg_id = Suc (config_seq t), host = h, port = p, database_name = dbn,
                  cfg_username = usr, password_encrypted = password_enc, use_ssl = ssl,
                  cfg_is_active = True, cfg_created_at = now, cfg_updated_at = now\<rparr>],
              config_seq := Suc (config_seq t)\<rparr>))"

fun latest :: "config_row list \<Rightarrow> config_row option" where
  \<comment> \<open>\<open>ORDER BY created_at DESC LIMIT 1\<close>. SQL leaves the order of rows with equal
      \<open>created_at\<close> open; the model takes the first of them in rowid order.\<close>
  "latest [] = None"
| "latest (r # rs) =
     (case latest rs of
        None \<Rightarrow> Some r
      | Some m \<Rightarrow> if cfg_created_at r < cfg_created_at m then Some m else Some r)"

definition get_oriontax_config :: "cipher \<Rightarrow> config_table \<Rightarrow> exn + config_dict option" where
  "get_oriontax_config c t =
     (case latest (filter cfg_is_active (config_oriontax t)) of
        None \<Rightarrow> Inr None
      | Some r \<Rightarrow>
          (case decrypt c (password_encrypted r) of
             Inl e \<Rightarrow> Inl e
           | Inr pw \<Rightarrow>
               Inr (Some \<lparr>d_id = cfg_id r, d_host = host r, d_port = port r,
                          d_database_name = database_name r, d_username = cfg_username r,
                          d_password = pw, d_use_ssl = use_ssl r,
                          d_is_active = cfg_is_active r, d_created_at = cfg_created_at r,
                          d_updated_at = cfg_updated_at r\<rparr>)))"

section \<open>Local store: schedules\<close>

fun str_nat :: "nat \<Rightarrow> string" where
  "str_nat n =
     (if n < 10 then [char_of (48 + n)]
      else str_nat (n div 10) @ [char_of (48 + n mod 10)])"

definition str_int :: "int \<Rightarrow> string" where
  \<comment> \<open>\<open>str\<close> of a Python integer\<close>
  "str_int i = (if i < 0 then ''-'' @ str_nat (nat (- i)) else str_nat (nat i))"

record agendamento =
  ag_id :: nat
  tipo_operacao :: string
  frequencia :: string
  dias_semana :: "string option"
  hora :: string
  ag_is_active :: bool
  ultima_execucao :: "nat option"
  proxima_execucao :: "nat option"
  ag_created_at :: nat

record agendamentos_table =
  agendamentos :: "agendamento list"
  agendamentos_seq :: nat

definition frequencia_map :: "string \<Rightarrow> string" where
  \<comment> \<open>\<open>frequencia_map.get(schedule_type, 'DIARIA')\<close>\<close>
  "frequencia_map schedule_type =
     (case map_of [(''daily'', ''DIARIA''), (''weekly'', ''SEMANAL''), (''monthly'', ''MENSAL'')]
                  schedule_type of
        Some f \<Rightarrow> f
      | None \<Rightarrow> ''DIARIA'')"

definition dias_semana_json :: "int option \<Rightarrow> string option" where
  \<comment> \<open>\<open>json.dumps([schedule_day])\<close> when a day is given\<close>
  "dias_semana_json schedule_day =
     (case schedule_day of None \<Rightarrow> None | Some d \<Rightarrow> Some (''['' @ str_int d @ '']''))"

definition check_agendamento :: "string \<Rightarrow> string \<Rightarrow> bool" where
  \<comment> \<open>The \<open>CHECK\<close> constraints of the table on \<open>tipo_operacao\<close> and \<open>frequencia\<close>.\<close>
  "check_agendamento op freq =
     (op \<in> set [''ENVIAR'', ''BUSCAR''] \<and> freq \<in> set [''DIARIA'', ''SEMANAL'', ''MENSAL''])"

definition create_schedule ::
  "nat \<Rightarrow> string \<Rightarrow> string \<Rightarrow> string \<Rightarrow> int option \<Rightarrow> bool \<Rightarrow> agendamentos_table
     \<Rightarrow> exn + (nat \<times> agendamentos_table)" where
  \<comment> \<open>Returns \<open>cursor.lastrowid\<close>; an exception of the \<open>INSERT\<close> is logged and raised
      again.\<close>
  "create_schedule now operation_type schedule_type schedule_time schedule_day active t =
     (let freq = frequencia_map schedule_type;
          dias = dias_semana_json schedule_day
      in if \<not> check_agendamento operation_type freq
         then Inl (IntegrityError ''CHECK constraint failed'')
         else Inr (Suc (agendamentos_seq t),
                   t\<lparr>agendamentos := agendamentos t @
                        [\<lparr>ag_id = Suc (agendamentos_seq t), tipo_operacao = operation_type,
                          frequencia = freq, dias_semana = dias, hora = schedule_time,
                          ag_is_active = active, ultima_execucao = None,
                          proxima_execucao = None, ag_created_at = now\<rparr>],
                      agendamentos_seq := Suc (agendamentos_seq t)\<rparr>))"

definition update_schedule ::
  "nat \<Rightarrow> string \<Rightarrow> string \<Rightarrow> string \<Rightarrow> int option \<Rightarrow> bool \<Rightarrow> agendamentos_table
     \<Rightarrow> exn + agendamentos_table" where
  \<comment> \<open>\<open>UPDATE agendamentos SET ... WHERE id = ?\<close>; the \<open>CHECK\<close> constraints are
      evaluated on the rows the statement updates.\<close>
  "update_schedule schedule_id operation_type schedule_type schedule_time schedule_day active t =
     (let freq = frequencia_map schedule_type;
          dias = dias_semana_json schedule_day
      in if (\<exists>r \<in> set (agendamentos t). ag_id r = schedule_id) \<and>
            \<not> check_agendamento operation_type freq
         then Inl (IntegrityError ''CHECK constraint failed'')
         else Inr (t\<lparr>agendamentos :=
                      map (\<lambda>r. if ag_id r = schedule_id
                                then r\<lparr>tipo_operacao := operation_type, frequencia := freq,
                                       dias_semana := dias, hora := schedule_time,
                                       ag_is_active := active\<rparr>
                                else r) (agendamentos t)\<rparr>))"

section \<open>Python string methods used by the enterprise client\<close>

definition isspace :: "char \<Rightarrow> bool" where
  \<comment> \<open>\<open>str.isspace\<close> on one code point: TAB..CR, FS..US, space, NEL and NBSP.\<close>
  "isspace c = (let n = of_char c :: nat in
      (9 \<le> n \<and> n \<le> 13) \<or> (28 \<le> n \<and> n \<le> 32) \<or> n = 133 \<or> n = 160)"

definition strip :: "string \<Rightarrow> string" where
  "strip s = rev (dropWhile isspace (rev (dropWhile isspace s)))"

definition lower_char :: "char \<Rightarrow> char" where
  \<comment> \<open>A..Z and the Latin-1 capitals U+00C0..U+00DE (without the sign U+00D7).\<close>
  "lower_char c = (let n = of_char c :: nat in
      if (65 \<le> n \<and> n \<le> 90) \<or> (192 \<le> n \<and> n \<le> 222 \<and> n \<noteq> 215)
      then char_of (n + 32) else c)"

definition lower :: "string \<Rightarrow> string" where
  "lower s = map lower_char s"

definition upper_char :: "char \<Rightarrow> string" where
  \<comment> \<open>a..z and U+00E0..U+00FE (without U+00F7) move down by 32; the sharp s becomes
      \<open>SS\<close>. The capitals of U+00B5 and U+00FF lie beyond the range of the model and the
      two letters are kept as they are.\<close>
  "upper_char c = (let n = of_char c :: nat in
      if (97 \<le> n \<and> n \<le> 122) \<or> (224 \<le> n \<and> n \<le> 254 \<and> n \<noteq> 247)
      then [char_of (n - 32)]
      else if n = 223 then ''SS'' else [c])"

definition upper :: "string \<Rightarrow> string" where
  "upper s = concat (map upper_char s)"

definition startswith :: "string \<Rightarrow> string \<Rightarrow> bool" where
  \<comment> \<open>\<open>s.startswith(p)\<close>\<close>
  "startswith p s = (take (length p) s = p)"

fun contains :: "string \<Rightarrow> string \<Rightarrow> bool" where
  \<comment> \<open>\<open>sub in s\<close>\<close>
  "contains sub [] = (sub = [])"
| "contains sub (c # cs) = (startswith sub (c # cs) \<or> contains sub cs)"

definition replace_comma :: "string \<Rightarrow> string" where
  \<comment> \<open>\<open>s.replace(",", ".")\<close>\<close>
  "replace_comma s = map (\<lambda>c. if c = CHR '','' then CHR ''.'' else c) s"

section \<open>Cells and dataframes\<close>

text \<open>
  A Python float is either NaN or another double; the doubles themselves are the type
  parameter \<open>'f\<close>. A cell of a dataframe holds \<open>None\<close>, a string, a float or an
  integer. The conversions that Python and pandas supply are parameters of the model.
\<close>

datatype 'f pyfloat = NaN | Num 'f

datatype 'f cell = PyNone | PyStr string | PyFloat "'f pyfloat" | PyInt int

record 'f pylib =
  float_of_str :: "string \<Rightarrow> 'f pyfloat option"
  float_of_int :: "int \<Rightarrow> 'f pyfloat option"
  str_of_float :: "'f \<Rightarrow> string"
  to_datetime :: "'f cell \<Rightarrow> 'f cell"

text \<open>
  \<open>float_of_str\<close> is \<open>float(s)\<close> on a string and \<open>float_of_int\<close> is \<open>float(i)\<close> on an
  integer, \<open>None\<close> when the call raises; \<open>str_of_float\<close> is \<open>str(x)\<close>;
  \<open>to_datetime\<close> is \<open>pd.to_datetime(..., errors="coerce")\<close> on one cell.

  A dataframe is the list of its column labels, each with the flag that the column has
  dtype \<open>object\<close>, and the list of its rows; a row has one cell for each column.
\<close>

record 'f dataframe =
  columns :: "(string \<times> bool) list"
  rows :: "'f cell list list"

definition df_empty :: "'f dataframe \<Rightarrow> bool" where
  \<comment> \<open>\<open>df.empty\<close>: one of the two axes has length 0\<close>
  "df_empty df = (columns df = [] \<or> rows df = [])"

definition py_str :: "'f pylib \<Rightarrow> 'f cell \<Rightarrow> string" where
  \<comment> \<open>\<open>astype(str)\<close> on one cell\<close>
  "py_str lib v =
     (case v of
        PyNone \<Rightarrow> ''None''
      | PyStr s \<Rightarrow> s
      | PyFloat NaN \<Rightarrow> ''nan''
      | PyFloat (Num x) \<Rightarrow> str_of_float lib x
      | PyInt i \<Rightarrow> str_int i)"

definition is_date_column :: "string \<Rightarrow> bool" where
  "is_date_column col = (contains ''DATA'' col \<or> startswith ''DT_'' col)"

definition normalize_cell :: "'f pylib \<Rightarrow> string \<times> bool \<Rightarrow> 'f cell \<Rightarrow> 'f cell" where
  \<comment> \<open>One cell of the column \<open>col\<close> in \<open>_normalize_dataframe_for_oracle\<close>.\<close>
  "normalize_cell lib col v =
     (if is_date_column (fst col) then to_datetime lib v
      else if snd col then
        (let s = replace_comma (py_str lib v)
         in if s \<in> set [[], ''nan'', ''NaN''] then PyNone else PyStr s)
      else v)"

definition normalize_dataframe_for_oracle :: "'f pylib \<Rightarrow> 'f dataframe \<Rightarrow> 'f dataframe" where
  \<comment> \<open>A date column leaves with a datetime dtype, every other column keeps its dtype.\<close>
  "normalize_dataframe_for_oracle lib df =
     \<lparr>columns = map (\<lambda>col. (fst col, snd col \<and> \<not> is_date_column (fst col))) (columns df),
      rows = map (\<lambda>r. map (\<lambda>(col, v). normalize_cell lib col v) (zip (columns df) r))
                 (rows df)\<rparr>"

definition row_get :: "string list \<Rightarrow> 'f cell list \<Rightarrow> string \<Rightarrow> 'f cell" where
  \<comment> \<open>\<open>row[col]\<close>; a label without a cell does not occur in a frame whose rows have
      one cell for each column, and reads as NaN here.\<close>
  "row_get labels r col =
     (case map_of (zip labels r) col of Some v \<Rightarrow> v | None \<Rightarrow> PyFloat NaN)"

definition reindex :: "string list \<Rightarrow> 'f dataframe \<Rightarrow> exn + 'f dataframe" where
  \<comment> \<open>\<open>df.reindex(columns=target)\<close>: pandas refuses an axis with duplicate labels; a
      target label that the frame lacks becomes a column of NaN.\<close>
  "reindex target df =
     (let labels = map fst (columns df) in
      if \<not> distinct labels
      then Inl (ValueError ''cannot reindex on an axis with duplicate labels'')
      else Inr \<lparr>columns = map (\<lambda>c. (c, case map_of (columns df) c of
                                           Some b \<Rightarrow> b | None \<Rightarrow> False)) target,
                rows = map (\<lambda>r. map (row_get labels r) target) (rows df)\<rparr>)"

section \<open>Enterprise client: table mappings\<close>

definition TABLE_COLUMNS :: "string \<Rightarrow> string list option" where
  "TABLE_COLUMNS = map_of
    [(''MXF_TMP_ICMS_SAIDA'',
        [''CODIGO_PRODUTO'', ''EAN'', ''NCM'', ''FUNDAMENTO_LEGAL'', ''CEST'',
         ''FECP'', ''SSS_CSOSN'', ''SNC_CST'', ''SNC_ALQ'', ''SNC_ALQST'',
         ''SNC_RBC'', ''SNC_RBCST'', ''SNC_CBENEF'', ''SNC_ALQ_BENEF'',
         ''SAC_CST'', ''SAC_ALQ'', ''SAC_ALQST'', ''SAC_RBC'', ''SAC_RBCST'',
         ''SAC_CBENEF'', ''SAC_ALQ_BENEF'',
         ''SVC_CST'', ''SVC_ALQ'', ''SVC_ALQST'', ''SVC_RBC'', ''SVC_RBCST'']),
     (''MXF_TMP_PIS_COFINS'',
        [''CODIGO_PRODUTO'', ''EAN'', ''NCM'', ''COD_NATUREZA_RECEITA'',
         ''PIS_CST_E'', ''PIS_ALQ_E'', ''PIS_CST_S'', ''PIS_ALQ_S'',
         ''COFINS_CST_E'', ''COFINS_ALQ_E'', ''COFINS_CST_S'', ''COFINS_ALQ_S'',
         ''FUNDAMENTO_LEGAL'']),
     (''MXF_TMP_CBS_IBS'',
        [''CODIGO_PRODUTO'', ''EAN'', ''CCLASSTRIB'', ''CST_CBS_IBS'',
         ''ALQ_CBS'', ''RBC_CBS'', ''ALQ_IBS'', ''RBC_IBS'',
         ''ALQ_IBS_MUN'', ''RBC_IBS_MUN'',
         ''ALQ_IS'', ''ALQ_IS_ESPEC'', ''CST_IS'', ''CCLASSTRIB_IS'',
         ''FUNDAMENTO_LEGAL''])]"

definition TABLE_NUMBER_COLUMNS :: "string \<Rightarrow> string list option" where
  "TABLE_NUMBER_COLUMNS = map_of
    [(''MXF_TMP_ICMS_SAIDA'',
        [''FECP'', ''SNC_ALQ'', ''SNC_ALQST'', ''SNC_RBC'', ''SNC_RBCST'',
         ''SNC_ALQ_BENEF'',
         ''SAC_ALQ'', ''SAC_ALQST'', ''SAC_RBC'', ''SAC_RBCST'', ''SAC_ALQ_BENEF'',
         ''SVC_ALQ'', ''SVC_ALQST'', ''SVC_RBC'', ''SVC_RBCST'']),
     (''MXF_TMP_PIS_COFINS'',
        [''PIS_ALQ_E'', ''PIS_ALQ_S'', ''COFINS_ALQ_E'', ''COFINS_ALQ_S'']),
     (''MXF_TMP_CBS_IBS'',
        [''ALQ_CBS'', ''RBC_CBS'', ''ALQ_IBS'', ''RBC_IBS'',
         ''ALQ_IBS_MUN'', ''RBC_IBS_MUN'', ''ALQ_IS'', ''ALQ_IS_ESPEC''])]"

definition is_number_column :: "string \<Rightarrow> string \<Rightarrow> bool" where
  \<comment> \<open>\<open>col_name in TABLE_NUMBER_COLUMNS.get(table_name, set())\<close>\<close>
  "is_number_column table_name col_name =
     (case TABLE_NUMBER_COLUMNS table_name of
        Some cols \<Rightarrow> col_name \<in> set cols
      | None \<Rightarrow> False)"

definition expected_cols :: "string \<Rightarrow> nat option" where
  \<comment> \<open>The literal \<open>expected_cols\<close> of each branch of the \<open>if\<close>/\<open>elif\<close> chain that
      selects the insert statement; \<open>None\<close> is the final \<open>else\<close>.\<close>
  "expected_cols table_name =
     (if table_name = ''MXF_TMP_ICMS_SAIDA'' then Some 26
      else if table_name = ''MXF_TMP_PIS_COFINS'' then Some 13
      else if table_name = ''MXF_TMP_CBS_IBS'' then Some 15
      else None)"

section \<open>Enterprise client: connection\<close>

text \<open>
  The driver and the database server are outside the program. The record \<open>oracle_server\<close>
  holds what they answer to each call the client makes with its configuration:
  \<open>None\<close> (or \<open>Inr\<close>) when the call returns, the exception when it raises.
  \<open>select_version\<close> is the row \<open>fetchone()\<close> returns for the version query, if any.
\<close>

record 'f oracle_server =
  thin_connect :: "exn option"
  init_oracle_client :: "string option \<Rightarrow> exn option"
  thick_connect :: "exn option"
  select_dual :: "exn option"
  select_version :: "exn + string option"
  delete_from :: "string \<Rightarrow> exn option"
  executemany :: "string \<Rightarrow> 'f cell list list \<Rightarrow> exn option"

datatype cfgval = CfgStr string | CfgInt int | CfgNone

text \<open>
  The client object: its configuration dictionary, whether \<open>self.connection\<close> holds an
  open connection, and the flag \<open>thick_mode_initialized\<close>.
\<close>

record oracle_client =
  config :: "string \<rightharpoonup> cfgval"
  connection :: bool
  thick_mode_initialized :: bool

definition config_item :: "oracle_client \<Rightarrow> string \<Rightarrow> exn + cfgval" where
  \<comment> \<open>\<open>self.config[key]\<close>\<close>
  "config_item cl k = (case config cl k of None \<Rightarrow> Inl (KeyError k) | Some v \<Rightarrow> Inr v)"

definition config_get_path :: "oracle_client \<Rightarrow> string option" where
  \<comment> \<open>\<open>self.config.get('instant_client_path')\<close>, with \<open>None\<close> for every falsy value\<close>
  "config_get_path cl =
     (case config cl ''instant_client_path'' of
        Some (CfgStr p) \<Rightarrow> if p = [] then None else Some p
      | _ \<Rightarrow> None)"

definition thick_mode_message :: "exn \<Rightarrow> string option \<Rightarrow> string" where
  \<comment> \<open>The text of the exception that \<open>_init_thick_mode\<close> raises.\<close>
  "thick_mode_message e path =
     ''Erro ao inicializar modo thick: '' @ exn_str e @ [CHR 0x0A, CHR 0x0A] @
     ''Oracle Database < 12.1 detectado, mas Oracle Instant Client n'' @ [CHR 0xE3] @
     ''o est'' @ [CHR 0xE1] @ '' configurado corretamente.'' @ [CHR 0x0A, CHR 0x0A] @
     ''Configure o caminho do Instant Client:'' @ [CHR 0x0A] @
     ''Caminho configurado: '' @ (case path of Some p \<Rightarrow> p | None \<Rightarrow> ''Nenhum'') @
     [CHR 0x0A, CHR 0x0A] @
     ''Verifique se o caminho est'' @ [CHR 0xE1] @ '' correto e o Instant Client est'' @
     [CHR 0xE1] @ '' instalado.''"

definition init_thick_mode ::
  "'f oracle_server \<Rightarrow> oracle_client \<Rightarrow> exn option \<times> oracle_client" where
  "init_thick_mode srv cl =
     (if thick_mode_initialized cl then (None, cl)
      else (case init_oracle_client srv (config_get_path cl) of
              None \<Rightarrow> (None, cl\<lparr>thick_mode_initialized := True\<rparr>)
            | Some e \<Rightarrow> (Some (Exception (thick_mode_message e (config_get_path cl))), cl)))"

definition is_dpy_3010 :: "exn \<Rightarrow> bool" where
  \<comment> \<open>The test of the \<open>except oracledb.DatabaseError\<close> handler:
      \<open>error_code == 3010 or 'DPY-3010' in error_message\<close>.\<close>
  "is_dpy_3010 e =
     (case e of
        DatabaseError code msg \<Rightarrow> code = Some 3010 \<or> contains ''DPY-3010'' msg
      | _ \<Rightarrow> False)"

definition missing_connect_key :: "oracle_client \<Rightarrow> string option" where
  \<comment> \<open>The first of the five keys read by \<open>makedsn\<close> and \<open>oracledb.connect\<close>, in the
      order of the reads, that the configuration lacks.\<close>
  "missing_connect_key cl =
     find (\<lambda>k. config cl k = None)
          [''host'', ''port'', ''service_name'', ''username'', ''password'']"

definition connect :: "'f oracle_server \<Rightarrow> oracle_client \<Rightarrow> (exn + bool) \<times> oracle_client" where
  \<comment> \<open>Thin mode first, thick mode only after the error DPY-3010; every other exception
      is raised again.\<close>
  "connect srv cl =
     (case missing_connect_key cl of
        Some k \<Rightarrow> (Inl (KeyError k), cl)
      | None \<Rightarrow>
          (case thin_connect srv of
             None \<Rightarrow> (Inr True, cl\<lparr>connection := True\<rparr>)
           | Some e \<Rightarrow>
               if is_dpy_3010 e then
                 (case init_thick_mode srv cl of
                    (Some e', cl') \<Rightarrow> (Inl e', cl')
                  | (None, cl') \<Rightarrow>
                      (case thick_connect srv of
                         None \<Rightarrow> (Inr True, cl'\<lparr>connection := True\<rparr>)
                       | Some e' \<Rightarrow> (Inl e', cl')))
               else (Inl e, cl)))"

definition disconnect :: "oracle_client \<Rightarrow> oracle_client" where
  \<comment> \<open>An exception of \<open>close()\<close> is logged; \<open>self.connection\<close> is cleared in any case.\<close>
  "disconnect cl = (if connection cl then cl\<lparr>connection := False\<rparr> else cl)"

definition msg_conexao_bem_sucedida :: "string \<Rightarrow> string \<Rightarrow> string" where
  "msg_conexao_bem_sucedida mode version =
     ''Conex'' @ [CHR 0xE3] @ ''o bem-sucedida (modo '' @ mode @ '')'' @ [CHR 0x0A] @ version"

definition msg_erro :: "exn \<Rightarrow> string" where
  "msg_erro e = ''Erro: '' @ exn_str e"

definition test_connection ::
  "'f oracle_server \<Rightarrow> oracle_client \<Rightarrow> (bool \<times> string) \<times> oracle_client" where
  \<comment> \<open>The body of the \<open>try\<close> in source order; every exception reaches the one
      \<open>except Exception\<close> handler, which returns its message and leaves
      \<open>self.connection\<close> as it is. \<open>fetchone()[0]\<close> raises when there is no row.\<close>
  "test_connection srv cl =
     (case config_item cl ''host'' of
        Inl e \<Rightarrow> ((False, msg_erro e), cl)
      | Inr _ \<Rightarrow>
     (case connect srv cl of
        (Inl e, cl1) \<Rightarrow> ((False, msg_erro e), cl1)
      | (Inr _, cl1) \<Rightarrow>
     (case select_dual srv of
        Some e \<Rightarrow> ((False, msg_erro e), cl1)
      | None \<Rightarrow>
     (case select_version srv of
        Inl e \<Rightarrow> ((False, msg_erro e), cl1)
      | Inr None \<Rightarrow>
          ((False, msg_erro (Exception ([CHR 0x27] @ ''NoneType'' @ [CHR 0x27] @
                                        '' object is not subscriptable''))), cl1)
      | Inr (Some version) \<Rightarrow>
          (let mode = (if thick_mode_initialized cl1 then ''thick'' else ''thin'')
           in ((True, msg_conexao_bem_sucedida mode version), disconnect cl1))))))"

section \<open>Enterprise client: bulk insert\<close>

text \<open>
  The state of the database session: the rows of every table as the open transaction
  sees them, the rows as of the last commit, and the error log of the cleaning step. A
  stored row is the tuple bound by the insert statement (the two timestamp columns that
  the server fills for \<open>MXF_TMP_ICMS_SAIDA\<close> are not part of it).
\<close>

datatype 'f log_entry = InvalidNumeric string string "'f cell"

record 'f session =
  tables :: "string \<Rightarrow> 'f cell list list"
  committed :: "string \<Rightarrow> 'f cell list list"
  log :: "'f log_entry list"

definition commit :: "'f session \<Rightarrow> 'f session" where
  "commit s = s\<lparr>committed := tables s\<rparr>"

definition rollback :: "'f session \<Rightarrow> 'f session" where
  "rollback s = s\<lparr>tables := committed s\<rparr>"

definition clean_value ::
  "'f pylib \<Rightarrow> string \<Rightarrow> 'f cell \<Rightarrow> string \<Rightarrow> 'f cell \<times> 'f log_entry list" where
  \<comment> \<open>The cleaned value and what \<open>logger.error\<close> receives. \<open>float(value)\<close> of a float
      is the float itself.\<close>
  "clean_value lib table_name val col_name =
     (case val of
        PyNone \<Rightarrow> (PyNone, [])
      | PyFloat NaN \<Rightarrow> (PyNone, [])
      | PyStr s \<Rightarrow>
          (let v = strip s in
           if lower v \<in> set [''none'', ''null'', []] then (PyNone, [])
           else if is_number_column table_name col_name then
             (case float_of_str lib (replace_comma v) of
                Some x \<Rightarrow> (PyFloat x, [])
              | None \<Rightarrow> (PyNone, [InvalidNumeric table_name col_name val]))
           else (PyStr v, []))
      | PyFloat (Num x) \<Rightarrow> (val, [])
      | PyInt i \<Rightarrow>
          (if is_number_column table_name col_name then
             (case float_of_int lib i of
                Some x \<Rightarrow> (PyFloat x, [])
              | None \<Rightarrow> (PyNone, [InvalidNumeric table_name col_name val]))
           else (val, [])))"

definition clean_row ::
  "'f pylib \<Rightarrow> string \<Rightarrow> string list \<Rightarrow> 'f cell list
     \<Rightarrow> 'f cell list \<times> 'f log_entry list" where
  \<comment> \<open>\<open>for i, col in enumerate(columns): clean_row.append(clean_value(row[col], col))\<close>\<close>
  "clean_row lib table_name cols r =
     (let cleaned = map (\<lambda>col. clean_value lib table_name (row_get cols r col) col) cols
      in (map fst cleaned, concat (map snd cleaned)))"

definition msg_count_mismatch :: "string \<Rightarrow> nat \<Rightarrow> nat \<Rightarrow> string" where
  "msg_count_mismatch table_name n expected =
     table_name @ '' | Quantidade de colunas inv'' @ [CHR 0xE1] @ ''lida: '' @ str_nat n @
     '' (esperado '' @ str_nat expected @ '')''"

definition run_executemany ::
  "'f oracle_server \<Rightarrow> string \<Rightarrow> 'f cell list list \<Rightarrow> 'f session \<Rightarrow> exn option \<times> 'f session" where
  \<comment> \<open>\<open>cursor.executemany(insert_sql, batch)\<close>: the batch is appended to the table, or
      the server's exception is raised and nothing is appended.\<close>
  "run_executemany srv table_name batch s =
     (case executemany srv table_name batch of
        Some e \<Rightarrow> (Some e, s)
      | None \<Rightarrow> (None, s\<lparr>tables := (tables s)(table_name := tables s table_name @ batch)\<rparr>))"

fun insert_loop ::
  "'f pylib \<Rightarrow> 'f oracle_server \<Rightarrow> string \<Rightarrow> string list \<Rightarrow> nat \<Rightarrow> nat
     \<Rightarrow> 'f cell list list \<Rightarrow> 'f cell list list \<Rightarrow> nat \<Rightarrow> 'f session
     \<Rightarrow> (exn + ('f cell list list \<times> nat)) \<times> 'f session" where
  \<comment> \<open>The loop \<open>for row_idx, row in df.iterrows()\<close> over the rows still to read, with
      the loop variables \<open>batch\<close> and \<open>inserted_rows\<close>; it returns their final values.\<close>
  "insert_loop lib srv table_name cols expected batch_size [] batch inserted_rows s =
     (Inr (batch, inserted_rows), s)"
| "insert_loop lib srv table_name cols expected batch_size (r # rs) batch inserted_rows s =
     (let (cleaned, errors) = clean_row lib table_name cols r;
          s1 = s\<lparr>log := log s @ errors\<rparr>
      in if length cleaned \<noteq> expected
         then (Inl (ValueError (msg_count_mismatch table_name (length cleaned) expected)), s1)
         else
           (let batch1 = batch @ [cleaned] in
            if length batch1 \<ge> batch_size then
              (case run_executemany srv table_name batch1 s1 of
                 (Some e, s2) \<Rightarrow> (Inl e, s2)
               | (None, s2) \<Rightarrow>
                   insert_loop lib srv table_name cols expected batch_size rs []
                     (inserted_rows + length batch1) s2)
            else insert_loop lib srv table_name cols expected batch_size rs batch1
                   inserted_rows s1))"

definition msg_tabela_nao_mapeada :: "string \<Rightarrow> string" where
  "msg_tabela_nao_mapeada table_name =
     ''Tabela n'' @ [CHR 0xE3] @ ''o mapeada em TABLE_COLUMNS: '' @ table_name"

definition msg_tabela_nao_suportada :: "string \<Rightarrow> string" where
  "msg_tabela_nao_suportada table_name =
     ''Tabela n'' @ [CHR 0xE3] @ ''o suportada: '' @ table_name"

definition insert_dataframe_oracle ::
  "'f pylib \<Rightarrow> 'f oracle_server \<Rightarrow> 'f dataframe \<Rightarrow> string \<Rightarrow> nat \<Rightarrow> 'f session
     \<Rightarrow> (exn + nat) \<times> 'f session" where
  \<comment> \<open>\<open>_insert_dataframe_oracle\<close>: upper-case labels, reindex to \<open>TABLE_COLUMNS\<close>, the
      loop over the rows, then the last batch.\<close>
  "insert_dataframe_oracle lib srv df table_name batch_size s =
     (case TABLE_COLUMNS table_name of
        None \<Rightarrow> (Inl (ValueError (msg_tabela_nao_mapeada table_name)), s)
      | Some expected_columns \<Rightarrow>
     (case reindex expected_columns
             (df\<lparr>columns := map (\<lambda>col. (upper (fst col), snd col)) (columns df)\<rparr>) of
        Inl e \<Rightarrow> (Inl e, s)
      | Inr df1 \<Rightarrow>
     (case expected_cols table_name of
        None \<Rightarrow> (Inl (ValueError (msg_tabela_nao_suportada table_name)), s)
      | Some expected \<Rightarrow>
     (case insert_loop lib srv table_name (map fst (columns df1)) expected batch_size
             (rows df1) [] 0 s of
        (Inl e, s1) \<Rightarrow> (Inl e, s1)
      | (Inr (batch, inserted_rows), s1) \<Rightarrow>
          (if batch \<noteq> [] then
             (case run_executemany srv table_name batch s1 of
                (Some e, s2) \<Rightarrow> (Inl e, s2)
              | (None, s2) \<Rightarrow> (Inr (inserted_rows + length batch), s2))
           else (Inr inserted_rows, s1))))))"

section \<open>Enterprise client: writing the staging tables\<close>

definition run_delete ::
  "'f oracle_server \<Rightarrow> string \<Rightarrow> 'f session \<Rightarrow> exn option \<times> 'f session" where
  \<comment> \<open>\<open>cursor.execute("DELETE FROM <table>")\<close>\<close>
  "run_delete srv table_name s =
     (case delete_from srv table_name of
        Some e \<Rightarrow> (Some e, s)
      | None \<Rightarrow> (None, s\<lparr>tables := (tables s)(table_name := [])\<rparr>))"

fun delete_all ::
  "'f oracle_server \<Rightarrow> string list \<Rightarrow> 'f session \<Rightarrow> exn option \<times> 'f session" where
  \<comment> \<open>The delete statements one after the other; the first exception ends them.\<close>
  "delete_all srv [] s = (None, s)"
| "delete_all srv (t # ts) s =
     (case run_delete srv t s of
        (Some e, s1) \<Rightarrow> (Some e, s1)
      | (None, s1) \<Rightarrow> delete_all srv ts s1)"

definition tmp_tables :: "string list" where
  "tmp_tables = [''MXF_TMP_ICMS_ENTRADA'', ''MXF_TMP_ICMS_SAIDA'',
                 ''MXF_TMP_PIS_COFINS'', ''MXF_TMP_CBS_IBS'']"

definition table_map :: "(string \<times> string) list" where
  "table_map = [(''icms_entrada'', ''MXF_TMP_ICMS_ENTRADA''),
                (''icms_saida'', ''MXF_TMP_ICMS_SAIDA''),
                (''pis_cofins'', ''MXF_TMP_PIS_COFINS''),
                (''cbs_ibs'', ''MXF_TMP_CBS_IBS'')]"

fun write_tables ::
  "'f pylib \<Rightarrow> 'f oracle_server \<Rightarrow> (string \<rightharpoonup> 'f dataframe) \<Rightarrow> (string \<times> string) list
     \<Rightarrow> nat \<Rightarrow> 'f session \<Rightarrow> (exn + nat) \<times> 'f session" where
  \<comment> \<open>The loop \<open>for df_key, table_name in table_map.items()\<close> with the loop variable
      \<open>total_inserted\<close>.\<close>
  "write_tables lib srv dataframes [] total_inserted s = (Inr total_inserted, s)"
| "write_tables lib srv dataframes ((df_key, table_name) # rest) total_inserted s =
     (case dataframes df_key of
        None \<Rightarrow> write_tables lib srv dataframes rest total_inserted s
      | Some df \<Rightarrow>
          if df_empty df then write_tables lib srv dataframes rest total_inserted s
          else if table_name = ''MXF_TMP_ICMS_ENTRADA''
          then write_tables lib srv dataframes rest total_inserted s
          else
            (case insert_dataframe_oracle lib srv (normalize_dataframe_for_oracle lib df)
                    table_name 5000 s of
               (Inl e, s1) \<Rightarrow> (Inl e, s1)
             | (Inr inserted, s1) \<Rightarrow>
                 write_tables lib srv dataframes rest (total_inserted + inserted) s1))"

definition write_failed ::
  "exn \<Rightarrow> oracle_client \<Rightarrow> 'f session \<Rightarrow> (exn + bool \<times> nat) \<times> oracle_client \<times> 'f session" where
  \<comment> \<open>The \<open>except\<close> handler: roll back when there is a connection, raise again.\<close>
  "write_failed e cl s = (Inl e, cl, if connection cl then rollback s else s)"

definition write_dataframes_to_tmp_tables ::
  "'f pylib \<Rightarrow> 'f oracle_server \<Rightarrow> (string \<rightharpoonup> 'f dataframe) \<Rightarrow> oracle_client \<Rightarrow> 'f session
     \<Rightarrow> (exn + bool \<times> nat) \<times> oracle_client \<times> 'f session" where
  \<comment> \<open>Returns \<open>(True, message)\<close>; the message is the text around \<open>total_inserted\<close> and
      is represented by that number.\<close>
  "write_dataframes_to_tmp_tables lib srv dataframes cl s =
     (case (if connection cl then (Inr True, cl) else connect srv cl) of
        (Inl e, cl1) \<Rightarrow> write_failed e cl1 s
      | (Inr _, cl1) \<Rightarrow>
     (case delete_all srv tmp_tables s of
        (Some e, s1) \<Rightarrow> write_failed e cl1 s1
      | (None, s1) \<Rightarrow>
     (case write_tables lib srv dataframes table_map 0 s1 of
        (Inl e, s2) \<Rightarrow> write_failed e cl1 s2
      | (Inr total_inserted, s2) \<Rightarrow> (Inr (True, total_inserted), cl1, commit s2))))"

definition rows_of_frame :: "(string \<rightharpoonup> 'f dataframe) \<Rightarrow> string \<Rightarrow> nat" where
  \<comment> \<open>\<open>len(df)\<close> for the dataframe under \<open>df_key\<close>, and 0 when the loop passes the key
      over because the dataframe is missing or empty.\<close>
  "rows_of_frame dataframes df_key =
     (case dataframes df_key of
        None \<Rightarrow> 0
      | Some df \<Rightarrow> if df_empty df then 0 else length (rows df))"

section \<open>A sample environment\<close>

text \<open>
  The theorems below hold for every library and every server. To run the model on
  concrete inputs, the examples use a library whose floats are rational numbers and whose
  \<open>float\<close> answers for the strings that occur in the examples, as Python's does: a
  number for a decimal numeral and NaN for the spellings of \<open>nan\<close> (every other string
  raises \<open>ValueError\<close> there), and a server that accepts every call.
\<close>

definition example_lib :: "rat pylib" where
  "example_lib =
     \<lparr>float_of_str = map_of [(''12.5'', Num (25 / 2)), (''7'', Num 7), (''0.65'', Num (13 / 20)),
                             (''nan'', NaN), (''NaN'', NaN), (''NAN'', NaN)],
      float_of_int = (\<lambda>i. Some (Num (of_int i))),
      str_of_float = (\<lambda>x. []),
      to_datetime = (\<lambda>v. v)\<rparr>"

definition example_server :: "rat oracle_server" where
  "example_server =
     \<lparr>thin_connect = None, init_oracle_client = (\<lambda>p. None), thick_connect = None,
      select_dual = None, select_version = Inr (Some ''Oracle Database 11g''),
      delete_from = (\<lambda>t. None), executemany = (\<lambda>t b. None)\<rparr>"

definition example_client :: oracle_client where
  "example_client =
     \<lparr>config = map_of [(''host'', CfgStr ''erp.example''), (''port'', CfgInt 1521),
                       (''service_name'', CfgStr ''ORCL''), (''username'', CfgStr ''mxf''),
                       (''password'', CfgStr ''secret''), (''instant_client_path'', CfgNone)],
      connection = False, thick_mode_initialized = False\<rparr>"

definition example_frames :: "string \<rightharpoonup> rat dataframe" where
  "example_frames = map_of
     [(''icms_entrada'',
         \<lparr>columns = [(''codigo_produto'', True)], rows = [[PyStr ''1001'']]\<rparr>),
      (''pis_cofins'',
         \<lparr>columns = [(''codigo_produto'', True), (''ean'', True), (''pis_alq_e'', True),
                     (''extra'', True)],
          rows = [[PyStr ''1001'', PyStr ''789'', PyStr ''12,5'', PyStr ''x''],
                  [PyStr ''1002'', PyStr '' Null '', PyStr ''not-a-number'', PyNone]]\<rparr>)]"

definition example_session :: "rat session" where
  "example_session =
     \<lparr>tables = (\<lambda>t. if t = ''MXF_TMP_ICMS_ENTRADA'' then [[PyStr ''old'']] else []),
      committed = (\<lambda>t. if t = ''MXF_TMP_ICMS_ENTRADA'' then [[PyStr ''old'']] else []),
      log = []\<rparr>"

section \<open>Properties of the encryption service\<close>

lemma encrypt_empty: "encrypt c [] = Inr []"
  by (simp add: encrypt_def)

lemma decrypt_empty: "decrypt c [] = Inr []"
  by (simp add: decrypt_def)

lemma encrypt_nonempty: "plaintext \<noteq> [] \<Longrightarrow> encrypt c plaintext = fernet_encrypt c plaintext"
  by (simp add: encrypt_def)

lemma decrypt_nonempty: "ciphertext \<noteq> [] \<Longrightarrow> decrypt c ciphertext = fernet_decrypt c ciphertext"
  by (simp add: decrypt_def)

section \<open>Properties of the client records\<close>

lemma length14_nth:
  assumes "length (d :: 'a list) = 14"
  shows "d = [d!0, d!1, d!2, d!3, d!4, d!5, d!6, d!7, d!8, d!9, d!10, d!11, d!12, d!13]"
  using assms by (auto simp: list_eq_iff_nth_eq less_Suc_eq numeral_eq_Suc)

lemma format_cnpj_14:
  assumes "cnpj_limpo cn' = d" and "length d = 14"
  shows "format_cnpj cn' =
     [d!0, d!1, CHR ''.'', d!2, d!3, d!4, CHR ''.'', d!5, d!6, d!7, CHR ''/'',
      d!8, d!9, d!10, d!11, CHR ''-'', d!12, d!13]"
proof -
  have "d = [d!0, d!1, d!2, d!3, d!4, d!5, d!6, d!7, d!8, d!9, d!10, d!11, d!12, d!13]"
    using assms(2) by (rule length14_nth)
  then obtain a b c e f g h i j k l m n p where d: "d = [a,b,c,e,f,g,h,i,j,k,l,m,n,p]"
    by blast
  show ?thesis unfolding format_cnpj_def assms(1) Let_def d by simp
qed

lemma create_cliente_rows:
  "r \<in> set (clientes (snd (create_cliente now nm cn t))) \<Longrightarrow>
     r \<in> set (clientes t) \<or> cnpj r = cnpj_limpo cn"
  by (auto simp: create_cliente_def Let_def split: if_splits)

lemma update_cliente_ok:
  assumes "length (cnpj_limpo cn) = 14"
    and "\<forall>r \<in> set (clientes t). cliente_id r \<noteq> cid \<longrightarrow> cnpj r \<noteq> cnpj_limpo cn"
  shows "update_cliente now cid nm cn t =
     (True, t\<lparr>clientes := map (\<lambda>r. if cliente_id r = cid
                                   then r\<lparr>nome := nm, cnpj := cnpj_limpo cn, updated_at := now\<rparr>
                                   else r) (clientes t)\<rparr>)"
proof -
  have "\<not> (\<exists>r \<in> set (clientes t). cliente_id r \<noteq> cid \<and> cnpj r = cnpj_limpo cn)"
    using assms(2) by blast
  then show ?thesis
    unfolding update_cliente_def Let_def using assms(1) by simp
qed

lemma update_cliente_cases:
  "update_cliente now cid nm cn t = (False, t) \<or>
   update_cliente now cid nm cn t =
     (True, t\<lparr>clientes := map (\<lambda>r. if cliente_id r = cid
                                   then r\<lparr>nome := nm, cnpj := cnpj_limpo cn, updated_at := now\<rparr>
                                   else r) (clientes t)\<rparr>)"
  unfolding update_cliente_def Let_def by simp

lemma update_cliente_rows:
  assumes "r \<in> set (clientes (snd (update_cliente now cid nm cn t)))"
  shows "r \<in> set (clientes t) \<or> cnpj r = cnpj_limpo cn"
proof -
  let ?F = "\<lambda>r. if cliente_id r = cid
                 then r\<lparr>nome := nm, cnpj := cnpj_limpo cn, updated_at := now\<rparr> else r"
  from update_cliente_cases [of now cid nm cn t] show ?thesis
  proof
    assume "update_cliente now cid nm cn t = (False, t)"
    with assms show ?thesis by simp
  next
    assume "update_cliente now cid nm cn t = (True, t\<lparr>clientes := map ?F (clientes t)\<rparr>)"
    with assms have "r \<in> ?F ` set (clientes t)" by simp
    then obtain r0 where r0: "r0 \<in> set (clientes t)" "r = ?F r0" by blast
    show ?thesis
    proof (cases "cliente_id r0 = cid")
      case True
      with r0 show ?thesis by simp
    next
      case False
      with r0 show ?thesis by simp
    qed
  qed
qed

lemma update_cliente_target:
  assumes "length (cnpj_limpo cn) = 14"
    and "\<forall>r \<in> set (clientes t). cliente_id r \<noteq> cid \<longrightarrow> cnpj r \<noteq> cnpj_limpo cn"
    and "r \<in> set (clientes (snd (update_cliente now cid nm cn t)))"
    and "cliente_id r = cid"
  shows "cnpj r = cnpj_limpo cn \<and> nome r = nm"
proof -
  let ?F = "\<lambda>r. if cliente_id r = cid
                 then r\<lparr>nome := nm, cnpj := cnpj_limpo cn, updated_at := now\<rparr> else r"
  from assms(3) have "r \<in> ?F ` set (clientes t)"
    by (simp add: update_cliente_ok [OF assms(1,2)])
  then obtain r0 where r0: "r0 \<in> set (clientes t)" "r = ?F r0" by blast
  show ?thesis
  proof (cases "cliente_id r0 = cid")
    case True
    with r0 show ?thesis by simp
  next
    case False
    with r0 assms(4) show ?thesis by simp
  qed
qed

lemma cnpj_limpo_digits: "list_all isdigit (cnpj_limpo cn)"
  by (simp add: cnpj_limpo_def list_all_iff)

lemma create_cliente_exact:
  assumes "length (cnpj_limpo cn) = 14"
  shows "create_cliente now nm cn t =
     (if \<exists>r \<in> set (clientes t). cnpj r = cnpj_limpo cn then (False, t)
      else (True, t\<lparr>clientes := clientes t @
                       [\<lparr>cliente_id = Suc (clientes_seq t), nome = nm, cnpj = cnpj_limpo cn,
                         is_active = True, created_at = now, updated_at = now\<rparr>],
                     clientes_seq := Suc (clientes_seq t)\<rparr>))"
  unfolding create_cliente_def Let_def using assms by simp

lemma update_cliente_exact:
  assumes "length (cnpj_limpo cn) = 14"
  shows "update_cliente now cid nm cn t =
     (if (\<exists>r \<in> set (clientes t). cliente_id r = cid) \<and>
         (\<exists>r \<in> set (clientes t). cliente_id r \<noteq> cid \<and> cnpj r = cnpj_limpo cn)
      then (False, t)
      else (True, t\<lparr>clientes := map (\<lambda>r. if cliente_id r = cid
                                   then r\<lparr>nome := nm, cnpj := cnpj_limpo cn, updated_at := now\<rparr>
                                   else r) (clientes t)\<rparr>))"
  unfolding update_cliente_def Let_def using assms by simp

lemma update_cliente_written:
  assumes "fst (update_cliente now cid nm cn t)"
    and "r \<in> set (clientes (snd (update_cliente now cid nm cn t)))"
    and "cliente_id r = cid"
  shows "cnpj r = cnpj_limpo cn \<and> nome r = nm \<and> updated_at r = now"
proof -
  let ?F = "\<lambda>r. if cliente_id r = cid
                 then r\<lparr>nome := nm, cnpj := cnpj_limpo cn, updated_at := now\<rparr> else r"
  from update_cliente_cases [of now cid nm cn t] assms(1)
  have "update_cliente now cid nm cn t = (True, t\<lparr>clientes := map ?F (clientes t)\<rparr>)"
    by auto
  with assms(2) have "r \<in> ?F ` set (clientes t)" by simp
  then obtain r0 where r0: "r0 \<in> set (clientes t)" "r = ?F r0" by blast
  show ?thesis
  proof (cases "cliente_id r0 = cid")
    case True
    with r0 show ?thesis by simp
  next
    case False
    with r0 assms(3) show ?thesis by simp
  qed
qed

text \<open>
  Claim C3. When the input holds exactly 14 digit characters, the value that client
  creation and update write into the \<open>cnpj\<close> column is the string of those digits alone.
  Creation returns \<open>False\<close> and changes nothing when a row already holds that string, and
  otherwise returns \<open>True\<close> with the table extended by one active row that carries it.
  Update returns \<open>False\<close> and changes nothing when the addressed row exists and another
  row already holds that string, and otherwise returns \<open>True\<close> with the table in which
  exactly the addressed row has the new name, the 14 digits and the new timestamp, every
  other row being as it was. \<open>format_cnpj\<close> on any string with the same digits returns
  them as NN.NNN.NNN/NNNN-NN. When the number of digits differs from 14, creation and
  update return \<open>False\<close> and leave the table as it is, and \<open>format_cnpj\<close> returns its
  input unchanged.
\<close>

theorem cnpj_normalisation:
  "(length (cnpj_limpo cn) = 14 \<longrightarrow>
      cnpj_limpo cn = filter isdigit cn \<and>
      list_all isdigit (cnpj_limpo cn) \<and>
      create_cliente now nm cn t =
        (if \<exists>r \<in> set (clientes t). cnpj r = cnpj_limpo cn then (False, t)
         else (True, t\<lparr>clientes := clientes t @
                          [\<lparr>cliente_id = Suc (clientes_seq t), nome = nm,
                            cnpj = cnpj_limpo cn,
                            is_active = True, created_at = now, updated_at = now\<rparr>],
                        clientes_seq := Suc (clientes_seq t)\<rparr>)) \<and>
      update_cliente now cid nm cn t =
        (if (\<exists>r \<in> set (clientes t). cliente_id r = cid) \<and>
            (\<exists>r \<in> set (clientes t). cliente_id r \<noteq> cid \<and> cnpj r = cnpj_limpo cn)
         then (False, t)
         else (True, t\<lparr>clientes :=
                 map (\<lambda>r. if cliente_id r = cid
                           then r\<lparr>nome := nm, cnpj := cnpj_limpo cn, updated_at := now\<rparr>
                           else r) (clientes t)\<rparr>)) \<and>
      (\<forall>r \<in> set (clientes (snd (create_cliente now nm cn t))).
          r \<in> set (clientes t) \<or> cnpj r = cnpj_limpo cn) \<and>
      (\<forall>r \<in> set (clientes (snd (update_cliente now cid nm cn t))).
          r \<in> set (clientes t) \<or> cnpj r = cnpj_limpo cn) \<and>
      (fst (update_cliente now cid nm cn t) \<longrightarrow>
          length (clientes (snd (update_cliente now cid nm cn t))) = length (clientes t) \<and>
          (\<forall>r \<in> set (clientes (snd (update_cliente now cid nm cn t))).
              cliente_id r = cid \<longrightarrow>
                cnpj r = cnpj_limpo cn \<and> nome r = nm \<and> updated_at r = now)) \<and>
      (\<forall>cn'. cnpj_limpo cn' = cnpj_limpo cn \<longrightarrow>
          format_cnpj cn' =
            [cnpj_limpo cn ! 0, cnpj_limpo cn ! 1, CHR ''.'',
             cnpj_limpo cn ! 2, cnpj_limpo cn ! 3, cnpj_limpo cn ! 4, CHR ''.'',
             cnpj_limpo cn ! 5, cnpj_limpo cn ! 6, cnpj_limpo cn ! 7, CHR ''/'',
             cnpj_limpo cn ! 8, cnpj_limpo cn ! 9, cnpj_limpo cn ! 10, cnpj_limpo cn ! 11,
             CHR ''-'', cnpj_limpo cn ! 12, cnpj_limpo cn ! 13]))
   \<and> (length (cnpj_limpo cn) \<noteq> 14 \<longrightarrow>
        create_cliente now nm cn t = (False, t) \<and>
        update_cliente now cid nm cn t = (False, t) \<and>
        format_cnpj cn = cn)"
proof (intro conjI impI allI ballI)
  show "cnpj_limpo cn = filter isdigit cn" by (simp add: cnpj_limpo_def)
next
  show "list_all isdigit (cnpj_limpo cn)" by (rule cnpj_limpo_digits)
next
  assume "length (cnpj_limpo cn) = 14"
  then show "create_cliente now nm cn t =
        (if \<exists>r \<in> set (clientes t). cnpj r = cnpj_limpo cn then (False, t)
         else (True, t\<lparr>clientes := clientes t @
                          [\<lparr>cliente_id = Suc (clientes_seq t), nome = nm,
                            cnpj = cnpj_limpo cn,
                            is_active = True, created_at = now, updated_at = now\<rparr>],
                        clientes_seq := Suc (clientes_seq t)\<rparr>))"
    by (rule create_cliente_exact)
next
  assume "length (cnpj_limpo cn) = 14"
  then show "update_cliente now cid nm cn t =
        (if (\<exists>r \<in> set (clientes t). cliente_id r = cid) \<and>
            (\<exists>r \<in> set (clientes t). cliente_id r \<noteq> cid \<and> cnpj r = cnpj_limpo cn)
         then (False, t)
         else (True, t\<lparr>clientes :=
                 map (\<lambda>r. if cliente_id r = cid
                           then r\<lparr>nome := nm, cnpj := cnpj_limpo cn, updated_at := now\<rparr>
                           else r) (clientes t)\<rparr>))"
    by (rule update_cliente_exact)
next
  fix r assume "r \<in> set (clientes (snd (create_cliente now nm cn t)))"
  then show "r \<in> set (clientes t) \<or> cnpj r = cnpj_limpo cn" by (rule create_cliente_rows)
next
  fix r assume "r \<in> set (clientes (snd (update_cliente now cid nm cn t)))"
  then show "r \<in> set (clientes t) \<or> cnpj r = cnpj_limpo cn" by (rule update_cliente_rows)
next
  assume "fst (update_cliente now cid nm cn t)"
  with update_cliente_cases [of now cid nm cn t]
  show "length (clientes (snd (update_cliente now cid nm cn t))) = length (clientes t)"
    by auto
next
  fix r
  assume "fst (update_cliente now cid nm cn t)"
    "r \<in> set (clientes (snd (update_cliente now cid nm cn t)))" "cliente_id r = cid"
  then show "cnpj r = cnpj_limpo cn" "nome r = nm" "updated_at r = now"
    using update_cliente_written by blast+
next
  fix cn' assume "length (cnpj_limpo cn) = 14" "cnpj_limpo cn' = cnpj_limpo cn"
  then show "format_cnpj cn' =
            [cnpj_limpo cn ! 0, cnpj_limpo cn ! 1, CHR ''.'',
             cnpj_limpo cn ! 2, cnpj_limpo cn ! 3, cnpj_limpo cn ! 4, CHR ''.'',
             cnpj_limpo cn ! 5, cnpj_limpo cn ! 6, cnpj_limpo cn ! 7, CHR ''/'',
             cnpj_limpo cn ! 8, cnpj_limpo cn ! 9, cnpj_limpo cn ! 10, cnpj_limpo cn ! 11,
             CHR ''-'', cnpj_limpo cn ! 12, cnpj_limpo cn ! 13]"
    by (simp add: format_cnpj_14)
next
  assume "length (cnpj_limpo cn) \<noteq> 14"
  then show "create_cliente now nm cn t = (False, t)"
    "update_cliente now cid nm cn t = (False, t)" "format_cnpj cn = cn"
    by (simp_all add: create_cliente_def update_cliente_def format_cnpj_def Let_def)
qed

lemma limpo_example: "cnpj_limpo ''12.345.678/0001-90'' = ''12345678000190''"
  by (simp add: cnpj_limpo_def isdigit_def)

lemma limpo_other: "cnpj_limpo ''98.765.432/0001-10'' = ''98765432000110''"
  by (simp add: cnpj_limpo_def isdigit_def)

lemma limpo_short: "cnpj_limpo ''12.345-6'' = ''123456''"
  by (simp add: cnpj_limpo_def isdigit_def)

theorem cnpj_normalisation_witness:
  "length (cnpj_limpo ''12.345.678/0001-90'') = 14 \<and>
   create_cliente 7 ''ACME'' ''12.345.678/0001-90'' \<lparr>clientes = [], clientes_seq = 0\<rparr> =
     (True, \<lparr>clientes = [\<lparr>cliente_id = 1, nome = ''ACME'', cnpj = ''12345678000190'',
                           is_active = True, created_at = 7, updated_at = 7\<rparr>],
             clientes_seq = 1\<rparr>) \<and>
   length (cnpj_limpo ''98.765.432/0001-10'') = 14 \<and>
   update_cliente 9 1 ''ACME Ltda'' ''98.765.432/0001-10''
      \<lparr>clientes = [\<lparr>cliente_id = 1, nome = ''ACME'', cnpj = ''12345678000190'',
                     is_active = True, created_at = 7, updated_at = 7\<rparr>,
                   \<lparr>cliente_id = 2, nome = ''Beta'', cnpj = ''11222333000181'',
                     is_active = False, created_at = 8, updated_at = 8\<rparr>],
       clientes_seq = 2\<rparr> =
     (True, \<lparr>clientes = [\<lparr>cliente_id = 1, nome = ''ACME Ltda'', cnpj = ''98765432000110'',
                           is_active = True, created_at = 7, updated_at = 9\<rparr>,
                         \<lparr>cliente_id = 2, nome = ''Beta'', cnpj = ''11222333000181'',
                           is_active = False, created_at = 8, updated_at = 8\<rparr>],
             clientes_seq = 2\<rparr>) \<and>
   update_cliente 9 2 ''Beta'' ''12.345.678/0001-90''
      \<lparr>clientes = [\<lparr>cliente_id = 1, nome = ''ACME'', cnpj = ''12345678000190'',
                     is_active = True, created_at = 7, updated_at = 7\<rparr>,
                   \<lparr>cliente_id = 2, nome = ''Beta'', cnpj = ''11222333000181'',
                     is_active = False, created_at = 8, updated_at = 8\<rparr>],
       clientes_seq = 2\<rparr> =
     (False, \<lparr>clientes = [\<lparr>cliente_id = 1, nome = ''ACME'', cnpj = ''12345678000190'',
                            is_active = True, created_at = 7, updated_at = 7\<rparr>,
                          \<lparr>cliente_id = 2, nome = ''Beta'', cnpj = ''11222333000181'',
                            is_active = False, created_at = 8, updated_at = 8\<rparr>],
              clientes_seq = 2\<rparr>) \<and>
   format_cnpj ''12345678000190'' = ''12.345.678/0001-90'' \<and>
   length (cnpj_limpo ''12.345-6'') \<noteq> 14 \<and>
   create_cliente 7 ''ACME'' ''12.345-6'' \<lparr>clientes = [], clientes_seq = 0\<rparr> =
     (False, \<lparr>clientes = [], clientes_seq = 0\<rparr>) \<and>
   update_cliente 7 1 ''ACME'' ''12.345-6'' \<lparr>clientes = [], clientes_seq = 0\<rparr> =
     (False, \<lparr>clientes = [], clientes_seq = 0\<rparr>) \<and>
   format_cnpj ''12.345-6'' = ''12.345-6''"
proof -
  let ?cn = "''12.345.678/0001-90''"
  let ?cn2 = "''98.765.432/0001-10''"
  let ?t = "\<lparr>clientes = [], clientes_seq = 0\<rparr>"
  let ?t2 = "\<lparr>clientes = [\<lparr>cliente_id = 1, nome = ''ACME'', cnpj = ''12345678000190'',
                             is_active = True, created_at = 7, updated_at = 7\<rparr>,
                           \<lparr>cliente_id = 2, nome = ''Beta'', cnpj = ''11222333000181'',
                             is_active = False, created_at = 8, updated_at = 8\<rparr>],
               clientes_seq = 2\<rparr>"
  have len: "length (cnpj_limpo ?cn) = 14" by (simp add: limpo_example)
  have len2: "length (cnpj_limpo ?cn2) = 14" by (simp add: limpo_other)
  note A = cnpj_normalisation [of ?cn 7 "''ACME''" ?t 1, THEN conjunct1, THEN mp,
             OF len]
  have c: "create_cliente 7 ''ACME'' ?cn ?t =
     (True, \<lparr>clientes = [\<lparr>cliente_id = 1, nome = ''ACME'', cnpj = ''12345678000190'',
                           is_active = True, created_at = 7, updated_at = 7\<rparr>],
             clientes_seq = 1\<rparr>)"
    using A [THEN conjunct2, THEN conjunct2, THEN conjunct1]
    by (simp add: limpo_example)
  note U = cnpj_normalisation [of ?cn2 9 "''ACME Ltda''" ?t2 1, THEN conjunct1,
             THEN mp, OF len2, THEN conjunct2, THEN conjunct2, THEN conjunct2, THEN conjunct1]
  have u: "update_cliente 9 1 ''ACME Ltda'' ?cn2 ?t2 =
     (True, \<lparr>clientes = [\<lparr>cliente_id = 1, nome = ''ACME Ltda'', cnpj = ''98765432000110'',
                           is_active = True, created_at = 7, updated_at = 9\<rparr>,
                         \<lparr>cliente_id = 2, nome = ''Beta'', cnpj = ''11222333000181'',
                           is_active = False, created_at = 8, updated_at = 8\<rparr>],
             clientes_seq = 2\<rparr>)"
    using U by (simp add: limpo_other)
  note V = cnpj_normalisation [of ?cn 9 "''Beta''" ?t2 2, THEN conjunct1,
             THEN mp, OF len, THEN conjunct2, THEN conjunct2, THEN conjunct2, THEN conjunct1]
  have v: "update_cliente 9 2 ''Beta'' ?cn ?t2 = (False, ?t2)"
    using V by (simp add: limpo_example)
  have l: "cnpj_limpo ''12345678000190'' = cnpj_limpo ?cn"
    by (simp add: cnpj_limpo_def isdigit_def)
  have f: "format_cnpj ''12345678000190'' = ''12.345.678/0001-90''"
    using A [THEN conjunct2, THEN conjunct2, THEN conjunct2, THEN conjunct2, THEN conjunct2,
             THEN conjunct2, THEN conjunct2, THEN spec, of "''12345678000190''", THEN mp, OF l]
    by (simp add: limpo_example)
  have short: "length (cnpj_limpo ''12.345-6'') \<noteq> 14" by (simp add: limpo_short)
  note B = cnpj_normalisation [of "''12.345-6''" 7 "''ACME''" ?t 1, THEN conjunct2,
             THEN mp, OF short]
  from len c len2 u v f short B show ?thesis by blast
qed

section \<open>Properties of zero-row updates and of schedules\<close>

lemma delete_cliente_noop:
  assumes "\<forall>r \<in> set (clientes t). cliente_id r = cid \<longrightarrow> \<not> is_active r"
  shows "delete_cliente cid t = (True, t)"
proof -
  have "map (\<lambda>r. if cliente_id r = cid then r\<lparr>is_active := False\<rparr> else r) (clientes t)
          = clientes t"
    using assms by (intro map_idI) simp
  then show ?thesis by (simp add: delete_cliente_def)
qed

lemma update_cliente_noop:
  assumes "length (cnpj_limpo cn) = 14"
    and "\<forall>r \<in> set (clientes t). cliente_id r \<noteq> cid"
  shows "update_cliente now cid nm cn t = (True, t)"
proof -
  have "map (\<lambda>r. if cliente_id r = cid
                  then r\<lparr>nome := nm, cnpj := cnpj_limpo cn, updated_at := now\<rparr> else r)
            (clientes t) = clientes t"
    using assms(2) by (intro map_idI) simp
  moreover have "\<not> (\<exists>r \<in> set (clientes t). cliente_id r = cid)"
    using assms(2) by blast
  ultimately show ?thesis
    unfolding update_cliente_def Let_def using assms(1) by simp
qed

lemma update_cliente_true_iff:
  "fst (update_cliente now cid nm cn t) \<longleftrightarrow>
     length (cnpj_limpo cn) = 14 \<and>
     \<not> ((\<exists>r \<in> set (clientes t). cliente_id r = cid) \<and>
        (\<exists>r \<in> set (clientes t). cliente_id r \<noteq> cid \<and> cnpj r = cnpj_limpo cn))"
  unfolding update_cliente_def Let_def by simp

text \<open>
  Claim C9, as the code has it. \<open>delete_cliente\<close> returns \<open>True\<close> for every client id.
  \<open>update_cliente\<close> returns \<open>True\<close> exactly when its CNPJ argument has 14 digits and it
  is not the case that a row with the id exists while a different row already holds
  that CNPJ; so for an id that no row has it returns \<open>True\<close> for every CNPJ of 14 digits,
  and for the id of a row, active or not, it returns \<open>True\<close> when no other row holds the
  CNPJ. When no row has the id, both leave the table exactly as it was, and so does
  \<open>delete_cliente\<close> on a row that is already inactive: the result \<open>True\<close> does not tell
  whether a row was changed.
\<close>

theorem zero_row_update_reports_success:
  "fst (delete_cliente cid t) \<and>
   ((\<forall>r \<in> set (clientes t). cliente_id r \<noteq> cid) \<longrightarrow> delete_cliente cid t = (True, t)) \<and>
   ((\<forall>r \<in> set (clientes t). cliente_id r = cid \<longrightarrow> \<not> is_active r) \<longrightarrow>
       delete_cliente cid t = (True, t)) \<and>
   (fst (update_cliente now cid nm cn t) \<longleftrightarrow>
      length (cnpj_limpo cn) = 14 \<and>
      \<not> ((\<exists>r \<in> set (clientes t). cliente_id r = cid) \<and>
         (\<exists>r \<in> set (clientes t). cliente_id r \<noteq> cid \<and> cnpj r = cnpj_limpo cn))) \<and>
   (\<not> fst (update_cliente now cid nm cn t) \<longrightarrow> update_cliente now cid nm cn t = (False, t)) \<and>
   (length (cnpj_limpo cn) = 14 \<longrightarrow>
      ((\<forall>r \<in> set (clientes t). cliente_id r \<noteq> cid \<longrightarrow> cnpj r \<noteq> cnpj_limpo cn) \<longrightarrow>
          fst (update_cliente now cid nm cn t)) \<and>
      ((\<forall>r \<in> set (clientes t). cliente_id r \<noteq> cid) \<longrightarrow>
          update_cliente now cid nm cn t = (True, t)))"
proof (intro conjI impI)
  show "fst (delete_cliente cid t)" by (simp add: delete_cliente_def)
next
  assume "\<forall>r \<in> set (clientes t). cliente_id r \<noteq> cid"
  then show "delete_cliente cid t = (True, t)" by (intro delete_cliente_noop) simp
next
  assume "\<forall>r \<in> set (clientes t). cliente_id r = cid \<longrightarrow> \<not> is_active r"
  then show "delete_cliente cid t = (True, t)" by (rule delete_cliente_noop)
next
  show "fst (update_cliente now cid nm cn t) \<longleftrightarrow>
      length (cnpj_limpo cn) = 14 \<and>
      \<not> ((\<exists>r \<in> set (clientes t). cliente_id r = cid) \<and>
         (\<exists>r \<in> set (clientes t). cliente_id r \<noteq> cid \<and> cnpj r = cnpj_limpo cn))"
    by (rule update_cliente_true_iff)
next
  assume "\<not> fst (update_cliente now cid nm cn t)"
  with update_cliente_cases [of now cid nm cn t]
  show "update_cliente now cid nm cn t = (False, t)" by auto
next
  assume "length (cnpj_limpo cn) = 14"
    "\<forall>r \<in> set (clientes t). cliente_id r \<noteq> cid \<longrightarrow> cnpj r \<noteq> cnpj_limpo cn"
  then show "fst (update_cliente now cid nm cn t)" by (simp add: update_cliente_ok)
next
  assume "length (cnpj_limpo cn) = 14" "\<forall>r \<in> set (clientes t). cliente_id r \<noteq> cid"
  then show "update_cliente now cid nm cn t = (True, t)" by (rule update_cliente_noop)
qed

theorem zero_row_update_reports_success_witness:
  "delete_cliente 5
      \<lparr>clientes = [\<lparr>cliente_id = 1, nome = ''ACME'', cnpj = ''12345678000190'',
                     is_active = True, created_at = 7, updated_at = 7\<rparr>,
                   \<lparr>cliente_id = 2, nome = ''Beta'', cnpj = ''11222333000181'',
                     is_active = False, created_at = 8, updated_at = 8\<rparr>],
       clientes_seq = 2\<rparr> =
     (True, \<lparr>clientes = [\<lparr>cliente_id = 1, nome = ''ACME'', cnpj = ''12345678000190'',
                           is_active = True, created_at = 7, updated_at = 7\<rparr>,
                         \<lparr>cliente_id = 2, nome = ''Beta'', cnpj = ''11222333000181'',
                           is_active = False, created_at = 8, updated_at = 8\<rparr>],
             clientes_seq = 2\<rparr>) \<and>
   delete_cliente 2
      \<lparr>clientes = [\<lparr>cliente_id = 1, nome = ''ACME'', cnpj = ''12345678000190'',
                     is_active = True, created_at = 7, updated_at = 7\<rparr>,
                   \<lparr>cliente_id = 2, nome = ''Beta'', cnpj = ''11222333000181'',
                     is_active = False, created_at = 8, updated_at = 8\<rparr>],
       clientes_seq = 2\<rparr> =
     (True, \<lparr>clientes = [\<lparr>cliente_id = 1, nome = ''ACME'', cnpj = ''12345678000190'',
                           is_active = True, created_at = 7, updated_at = 7\<rparr>,
                         \<lparr>cliente_id = 2, nome = ''Beta'', cnpj = ''11222333000181'',
                           is_active = False, created_at = 8, updated_at = 8\<rparr>],
             clientes_seq = 2\<rparr>) \<and>
   length (cnpj_limpo ''12.345.678/0001-90'') = 14 \<and>
   update_cliente 9 5 ''Other'' ''12.345.678/0001-90''
      \<lparr>clientes = [\<lparr>cliente_id = 1, nome = ''ACME'', cnpj = ''12345678000190'',
                     is_active = True, created_at = 7, updated_at = 7\<rparr>,
                   \<lparr>cliente_id = 2, nome = ''Beta'', cnpj = ''11222333000181'',
                     is_active = False, created_at = 8, updated_at = 8\<rparr>],
       clientes_seq = 2\<rparr> =
     (True, \<lparr>clientes = [\<lparr>cliente_id = 1, nome = ''ACME'', cnpj = ''12345678000190'',
                           is_active = True, created_at = 7, updated_at = 7\<rparr>,
                         \<lparr>cliente_id = 2, nome = ''Beta'', cnpj = ''11222333000181'',
                           is_active = False, created_at = 8, updated_at = 8\<rparr>],
             clientes_seq = 2\<rparr>) \<and>
   fst (update_cliente 9 2 ''Beta'' ''98.765.432/0001-10''
      \<lparr>clientes = [\<lparr>cliente_id = 1, nome = ''ACME'', cnpj = ''12345678000190'',
                     is_active = True, created_at = 7, updated_at = 7\<rparr>,
                   \<lparr>cliente_id = 2, nome = ''Beta'', cnpj = ''11222333000181'',
                     is_active = False, created_at = 8, updated_at = 8\<rparr>],
       clientes_seq = 2\<rparr>)"
proof -
  let ?t = "\<lparr>clientes = [\<lparr>cliente_id = 1, nome = ''ACME'', cnpj = ''12345678000190'',
                           is_active = True, created_at = 7, updated_at = 7\<rparr>,
                         \<lparr>cliente_id = 2, nome = ''Beta'', cnpj = ''11222333000181'',
                           is_active = False, created_at = 8, updated_at = 8\<rparr>],
             clientes_seq = 2\<rparr>"
  note T = zero_row_update_reports_success [of 5 ?t 9 "''Other''" "''12.345.678/0001-90''"]
  note I = zero_row_update_reports_success [of 2 ?t 9 "''Beta''" "''98.765.432/0001-10''"]
  have absent: "\<forall>r \<in> set (clientes ?t). cliente_id r \<noteq> 5" by simp
  have inactive: "\<forall>r \<in> set (clientes ?t). cliente_id r = 2 \<longrightarrow> \<not> is_active r" by simp
  have len: "length (cnpj_limpo ''12.345.678/0001-90'') = 14" by (simp add: limpo_example)
  have len2: "length (cnpj_limpo ''98.765.432/0001-10'') = 14" by (simp add: limpo_other)
  have free: "\<forall>r \<in> set (clientes ?t). cliente_id r \<noteq> 2 \<longrightarrow>
                cnpj r \<noteq> cnpj_limpo ''98.765.432/0001-10''"
    by (simp add: limpo_other)
  have d: "delete_cliente 5 ?t = (True, ?t)"
    using T [THEN conjunct2, THEN conjunct1, THEN mp, OF absent] .
  have d2: "delete_cliente 2 ?t = (True, ?t)"
    using I [THEN conjunct2, THEN conjunct2, THEN conjunct1, THEN mp, OF inactive] .
  have u: "update_cliente 9 5 ''Other'' ''12.345.678/0001-90'' ?t = (True, ?t)"
    using T [THEN conjunct2, THEN conjunct2, THEN conjunct2, THEN conjunct2, THEN conjunct2,
             THEN mp, OF len, THEN conjunct2, THEN mp, OF absent] .
  have u2: "fst (update_cliente 9 2 ''Beta'' ''98.765.432/0001-10'' ?t)"
    using I [THEN conjunct2, THEN conjunct2, THEN conjunct2, THEN conjunct2, THEN conjunct2,
             THEN mp, OF len2, THEN conjunct1, THEN mp, OF free] .
  from d d2 len u u2 show ?thesis by blast
qed

text \<open>
  The claim as stated fails for \<open>update_cliente\<close>: on the id of the inactive row 2 with a
  CNPJ that row 1 holds, and on an id that no row has with a CNPJ of three digits, it
  returns \<open>False\<close>.
\<close>

theorem update_cliente_false_for_existing_and_missing_id:
  "update_cliente 9 2 ''Beta'' ''12.345.678/0001-90''
      \<lparr>clientes = [\<lparr>cliente_id = 1, nome = ''ACME'', cnpj = ''12345678000190'',
                     is_active = True, created_at = 7, updated_at = 7\<rparr>,
                   \<lparr>cliente_id = 2, nome = ''Beta'', cnpj = ''11222333000181'',
                     is_active = False, created_at = 8, updated_at = 8\<rparr>],
       clientes_seq = 2\<rparr> =
     (False, \<lparr>clientes = [\<lparr>cliente_id = 1, nome = ''ACME'', cnpj = ''12345678000190'',
                            is_active = True, created_at = 7, updated_at = 7\<rparr>,
                          \<lparr>cliente_id = 2, nome = ''Beta'', cnpj = ''11222333000181'',
                            is_active = False, created_at = 8, updated_at = 8\<rparr>],
              clientes_seq = 2\<rparr>) \<and>
   update_cliente 9 5 ''Other'' ''123''
      \<lparr>clientes = [\<lparr>cliente_id = 1, nome = ''ACME'', cnpj = ''12345678000190'',
                     is_active = True, created_at = 7, updated_at = 7\<rparr>,
                   \<lparr>cliente_id = 2, nome = ''Beta'', cnpj = ''11222333000181'',
                     is_active = False, created_at = 8, updated_at = 8\<rparr>],
       clientes_seq = 2\<rparr> =
     (False, \<lparr>clientes = [\<lparr>cliente_id = 1, nome = ''ACME'', cnpj = ''12345678000190'',
                            is_active = True, created_at = 7, updated_at = 7\<rparr>,
                          \<lparr>cliente_id = 2, nome = ''Beta'', cnpj = ''11222333000181'',
                            is_active = False, created_at = 8, updated_at = 8\<rparr>],
              clientes_seq = 2\<rparr>)"
  by (simp add: update_cliente_def cnpj_limpo_def isdigit_def)

lemma frequencia_map_unknown:
  assumes "schedule_type \<notin> {''daily'', ''weekly'', ''monthly''}"
  shows "frequencia_map schedule_type = ''DIARIA''"
  using assms by (simp add: frequencia_map_def)

lemma check_agendamento_diaria:
  "check_agendamento operation_type ''DIARIA'' = (operation_type \<in> {''ENVIAR'', ''BUSCAR''})"
  by (simp add: check_agendamento_def)

text \<open>
  Claim C10. \<open>create_schedule\<close> and \<open>update_schedule\<close> do not validate the schedule type:
  every value other than \<open>daily\<close>, \<open>weekly\<close> and \<open>monthly\<close> is stored as the frequency
  \<open>DIARIA\<close>. With an operation type the table accepts, neither call raises; the new or
  updated row is a daily schedule.
\<close>

theorem unknown_schedule_type_stored_as_daily:
  "schedule_type \<notin> {''daily'', ''weekly'', ''monthly''} \<longrightarrow>
     frequencia_map schedule_type = ''DIARIA'' \<and>
     (operation_type \<in> {''ENVIAR'', ''BUSCAR''} \<longrightarrow>
        create_schedule now operation_type schedule_type schedule_time schedule_day active t =
          Inr (Suc (agendamentos_seq t),
               t\<lparr>agendamentos := agendamentos t @
                    [\<lparr>ag_id = Suc (agendamentos_seq t), tipo_operacao = operation_type,
                      frequencia = ''DIARIA'', dias_semana = dias_semana_json schedule_day,
                      hora = schedule_time, ag_is_active = active, ultima_execucao = None,
                      proxima_execucao = None, ag_created_at = now\<rparr>],
                  agendamentos_seq := Suc (agendamentos_seq t)\<rparr>) \<and>
        update_schedule sid operation_type schedule_type schedule_time schedule_day active t =
          Inr (t\<lparr>agendamentos :=
                   map (\<lambda>r. if ag_id r = sid
                             then r\<lparr>tipo_operacao := operation_type, frequencia := ''DIARIA'',
                                    dias_semana := dias_semana_json schedule_day,
                                    hora := schedule_time, ag_is_active := active\<rparr>
                             else r) (agendamentos t)\<rparr>))"
proof (intro impI conjI)
  assume u: "schedule_type \<notin> {''daily'', ''weekly'', ''monthly''}"
  then show f: "frequencia_map schedule_type = ''DIARIA''" by (rule frequencia_map_unknown)
  assume "operation_type \<in> {''ENVIAR'', ''BUSCAR''}"
  then have c: "check_agendamento operation_type ''DIARIA''"
    by (simp only: check_agendamento_diaria)
  show "create_schedule now operation_type schedule_type schedule_time schedule_day active t =
          Inr (Suc (agendamentos_seq t),
               t\<lparr>agendamentos := agendamentos t @
                    [\<lparr>ag_id = Suc (agendamentos_seq t), tipo_operacao = operation_type,
                      frequencia = ''DIARIA'', dias_semana = dias_semana_json schedule_day,
                      hora = schedule_time, ag_is_active = active, ultima_execucao = None,
                      proxima_execucao = None, ag_created_at = now\<rparr>],
                  agendamentos_seq := Suc (agendamentos_seq t)\<rparr>)"
    unfolding create_schedule_def Let_def f using c by simp
  show "update_schedule sid operation_type schedule_type schedule_time schedule_day active t =
          Inr (t\<lparr>agendamentos :=
                   map (\<lambda>r. if ag_id r = sid
                             then r\<lparr>tipo_operacao := operation_type, frequencia := ''DIARIA'',
                                    dias_semana := dias_semana_json schedule_day,
                                    hora := schedule_time, ag_is_active := active\<rparr>
                             else r) (agendamentos t)\<rparr>)"
    unfolding update_schedule_def Let_def f using c by simp
qed

theorem unknown_schedule_type_stored_as_daily_witness:
  "''dayly'' \<notin> {''daily'', ''weekly'', ''monthly''} \<and>
   ''ENVIAR'' \<in> {''ENVIAR'', ''BUSCAR''} \<and>
   create_schedule 3 ''ENVIAR'' ''dayly'' ''09:30'' (Some 2) True
       \<lparr>agendamentos = [], agendamentos_seq = 0\<rparr> =
     Inr (1, \<lparr>agendamentos =
                [\<lparr>ag_id = 1, tipo_operacao = ''ENVIAR'', frequencia = ''DIARIA'',
                  dias_semana = Some ''[2]'', hora = ''09:30'', ag_is_active = True,
                  ultima_execucao = None, proxima_execucao = None, ag_created_at = 3\<rparr>],
              agendamentos_seq = 1\<rparr>)"
proof -
  have u: "''dayly'' \<notin> {''daily'', ''weekly'', ''monthly''}" by simp
  have e: "''ENVIAR'' \<in> {''ENVIAR'', ''BUSCAR''}" by simp
  have j: "dias_semana_json (Some 2) = Some ''[2]''"
    by code_simp
  have "create_schedule 3 ''ENVIAR'' ''dayly'' ''09:30'' (Some 2) True
       \<lparr>agendamentos = [], agendamentos_seq = 0\<rparr> =
     Inr (1, \<lparr>agendamentos =
                [\<lparr>ag_id = 1, tipo_operacao = ''ENVIAR'', frequencia = ''DIARIA'',
                  dias_semana = Some ''[2]'', hora = ''09:30'', ag_is_active = True,
                  ultima_execucao = None, proxima_execucao = None, ag_created_at = 3\<rparr>],
              agendamentos_seq = 1\<rparr>)"
    using unknown_schedule_type_stored_as_daily
            [of "''dayly''" "''ENVIAR''" 3 "''09:30''" "Some 2" True
                "\<lparr>agendamentos = [], agendamentos_seq = 0\<rparr>" 1,
             THEN mp, OF u, THEN conjunct2, THEN mp, OF e, THEN conjunct1]
    by (simp add: j)
  with u e show ?thesis by blast
qed

section \<open>Properties of the password change\<close>

lemma change_password_not_found:
  assumes "\<forall>u \<in> set us. \<not> (username u = uname \<and> usr_is_active u)"
  shows "change_password bc salt uname old_password new_password us =
           ((False, msg_usuario_nao_encontrado), us)"
proof -
  have "find (\<lambda>u. username u = uname \<and> usr_is_active u) us = None"
    using assms by (simp add: find_None_iff)
  then show ?thesis by (simp add: change_password_def)
qed

lemma change_password_incorrect:
  assumes "find (\<lambda>u. username u = uname \<and> usr_is_active u) us = Some user"
    and "verify_password bc old_password (password_hash user) = Inr False"
  shows "change_password bc salt uname old_password new_password us =
           ((False, msg_senha_incorreta), us)"
  using assms by (simp add: change_password_def)

lemma change_password_changed:
  assumes "find (\<lambda>u. username u = uname \<and> usr_is_active u) us = Some user"
    and "verify_password bc old_password (password_hash user) = Inr True"
    and "hash_password bc salt new_password = Inr new_hash"
  shows "change_password bc salt uname old_password new_password us =
           ((True, msg_senha_alterada),
            map (\<lambda>u. if usuario_id u = usuario_id user
                      then u\<lparr>password_hash := new_hash\<rparr> else u) us)"
  using assms by (simp add: change_password_def)

lemma change_password_mutation:
  assumes "snd (change_password bc salt uname old_password new_password us) \<noteq> us"
  shows "\<exists>user new_hash.
           find (\<lambda>u. username u = uname \<and> usr_is_active u) us = Some user \<and>
           verify_password bc old_password (password_hash user) = Inr True \<and>
           hash_password bc salt new_password = Inr new_hash \<and>
           change_password bc salt uname old_password new_password us =
             ((True, msg_senha_alterada),
              map (\<lambda>u. if usuario_id u = usuario_id user
                        then u\<lparr>password_hash := new_hash\<rparr> else u) us)"
proof (cases "find (\<lambda>u. username u = uname \<and> usr_is_active u) us")
  case None
  with assms show ?thesis by (simp add: change_password_def)
next
  case (Some user)
  show ?thesis
  proof (cases "verify_password bc old_password (password_hash user)")
    case (Inl e)
    with Some assms show ?thesis by (simp add: change_password_def)
  next
    case (Inr ok)
    show ?thesis
    proof (cases ok)
      case False
      with Some Inr assms show ?thesis by (simp add: change_password_def)
    next
      case True
      show ?thesis
      proof (cases "hash_password bc salt new_password")
        case (Inl e)
        with Some Inr True assms show ?thesis by (simp add: change_password_def)
      next
        case (Inr new_hash)
        with Some \<open>verify_password bc old_password (password_hash user) = Inr ok\<close> True
        show ?thesis by (simp add: change_password_changed)
      qed
    qed
  qed
qed

text \<open>
  Claim C4. \<open>change_password\<close> verifies the old password before it writes. When no active
  account has the user name it returns \<open>False\<close> with the message that the user was not
  found, and when the old password fails verification it returns \<open>False\<close> with the
  message that the current password is incorrect; in both cases the accounts are returned
  as they were. The accounts differ after the call only when an active account was found,
  the verification succeeded and the new password was hashed, and then the call returns
  \<open>True\<close> and the only change is that the rows with the id of that account carry the new
  hash.
\<close>

theorem change_password_verifies_before_write:
  "((\<forall>u \<in> set us. \<not> (username u = uname \<and> usr_is_active u)) \<longrightarrow>
       change_password bc salt uname old_password new_password us =
         ((False, msg_usuario_nao_encontrado), us)) \<and>
   (\<forall>user. find (\<lambda>u. username u = uname \<and> usr_is_active u) us = Some user \<and>
            verify_password bc old_password (password_hash user) = Inr False \<longrightarrow>
       change_password bc salt uname old_password new_password us =
         ((False, msg_senha_incorreta), us)) \<and>
   (snd (change_password bc salt uname old_password new_password us) \<noteq> us \<longrightarrow>
      (\<exists>user new_hash.
          find (\<lambda>u. username u = uname \<and> usr_is_active u) us = Some user \<and>
          verify_password bc old_password (password_hash user) = Inr True \<and>
          hash_password bc salt new_password = Inr new_hash \<and>
          change_password bc salt uname old_password new_password us =
            ((True, msg_senha_alterada),
             map (\<lambda>u. if usuario_id u = usuario_id user
                       then u\<lparr>password_hash := new_hash\<rparr> else u) us))) \<and>
   (\<forall>user new_hash.
       find (\<lambda>u. username u = uname \<and> usr_is_active u) us = Some user \<and>
       verify_password bc old_password (password_hash user) = Inr True \<and>
       hash_password bc salt new_password = Inr new_hash \<longrightarrow>
       change_password bc salt uname old_password new_password us =
         ((True, msg_senha_alterada),
          map (\<lambda>u. if usuario_id u = usuario_id user
                    then u\<lparr>password_hash := new_hash\<rparr> else u) us))"
  using change_password_not_found [of us uname bc salt old_password new_password]
        change_password_incorrect [of uname us _ bc old_password salt new_password]
        change_password_mutation [of bc salt uname old_password new_password us]
        change_password_changed [of uname us _ bc old_password salt new_password]
  by blast

theorem change_password_verifies_before_write_witness:
  "change_password \<lparr>hashpw = (\<lambda>p s. Inr (s @ p)), checkpw = (\<lambda>p h. Inr (h = ''$2b$'' @ p))\<rparr>
      ''$2b$'' ''bob'' ''admin123'' ''segredo''
      [\<lparr>usuario_id = 1, username = ''admin'', password_hash = ''$2b$admin123'',
        nome_completo = Some ''Administrador'', email = None, usr_is_active = True,
        usr_created_at = 0, last_login = None\<rparr>] =
     ((False, msg_usuario_nao_encontrado),
      [\<lparr>usuario_id = 1, username = ''admin'', password_hash = ''$2b$admin123'',
        nome_completo = Some ''Administrador'', email = None, usr_is_active = True,
        usr_created_at = 0, last_login = None\<rparr>]) \<and>
   change_password \<lparr>hashpw = (\<lambda>p s. Inr (s @ p)), checkpw = (\<lambda>p h. Inr (h = ''$2b$'' @ p))\<rparr>
      ''$2b$'' ''admin'' ''errada'' ''segredo''
      [\<lparr>usuario_id = 1, username = ''admin'', password_hash = ''$2b$admin123'',
        nome_completo = Some ''Administrador'', email = None, usr_is_active = True,
        usr_created_at = 0, last_login = None\<rparr>] =
     ((False, msg_senha_incorreta),
      [\<lparr>usuario_id = 1, username = ''admin'', password_hash = ''$2b$admin123'',
        nome_completo = Some ''Administrador'', email = None, usr_is_active = True,
        usr_created_at = 0, last_login = None\<rparr>]) \<and>
   change_password \<lparr>hashpw = (\<lambda>p s. Inr (s @ p)), checkpw = (\<lambda>p h. Inr (h = ''$2b$'' @ p))\<rparr>
      ''$2b$'' ''admin'' ''admin123'' ''segredo''
      [\<lparr>usuario_id = 1, username = ''admin'', password_hash = ''$2b$admin123'',
        nome_completo = Some ''Administrador'', email = None, usr_is_active = True,
        usr_created_at = 0, last_login = None\<rparr>] =
     ((True, msg_senha_alterada),
      [\<lparr>usuario_id = 1, username = ''admin'', password_hash = ''$2b$segredo'',
        nome_completo = Some ''Administrador'', email = None, usr_is_active = True,
        usr_created_at = 0, last_login = None\<rparr>])"
proof -
  let ?bc = "\<lparr>hashpw = (\<lambda>p s. Inr (s @ p)), checkpw = (\<lambda>p h. Inr (h = ''$2b$'' @ p))\<rparr>"
  let ?admin = "\<lparr>usuario_id = 1, username = ''admin'', password_hash = ''$2b$admin123'',
        nome_completo = Some ''Administrador'', email = None, usr_is_active = True,
        usr_created_at = 0, last_login = None\<rparr>"
  have none: "\<forall>u \<in> set [?admin]. \<not> (username u = ''bob'' \<and> usr_is_active u)" by simp
  have a: "change_password ?bc ''$2b$'' ''bob'' ''admin123'' ''segredo'' [?admin] =
             ((False, msg_usuario_nao_encontrado), [?admin])"
    using change_password_verifies_before_write
            [of "[?admin]" "''bob''" ?bc "''$2b$''" "''admin123''" "''segredo''",
             THEN conjunct1, THEN mp, OF none] .
  have found: "find (\<lambda>u. username u = ''admin'' \<and> usr_is_active u) [?admin] = Some ?admin"
    by simp
  have wrong: "verify_password ?bc ''errada'' (password_hash ?admin) = Inr False"
    by (simp add: verify_password_def)
  have b: "change_password ?bc ''$2b$'' ''admin'' ''errada'' ''segredo'' [?admin] =
             ((False, msg_senha_incorreta), [?admin])"
    using change_password_verifies_before_write
            [of "[?admin]" "''admin''" ?bc "''$2b$''" "''errada''" "''segredo''",
             THEN conjunct2, THEN conjunct1, THEN spec, of ?admin, THEN mp,
             OF conjI [OF found wrong]] .
  have right: "verify_password ?bc ''admin123'' (password_hash ?admin) = Inr True"
    by (simp add: verify_password_def)
  have hashed: "hash_password ?bc ''$2b$'' ''segredo'' = Inr ''$2b$segredo''"
    by (simp add: hash_password_def)
  have c: "change_password ?bc ''$2b$'' ''admin'' ''admin123'' ''segredo'' [?admin] =
             ((True, msg_senha_alterada), [?admin\<lparr>password_hash := ''$2b$segredo''\<rparr>])"
    using change_password_verifies_before_write
            [of "[?admin]" "''admin''" ?bc "''$2b$''" "''admin123''" "''segredo''",
             THEN conjunct2, THEN conjunct2, THEN conjunct2, THEN spec, of ?admin,
             THEN spec, of "''$2b$segredo''", THEN mp,
             OF conjI [OF found conjI [OF right hashed]]]
    by simp
  from a b c show ?thesis by simp
qed

section \<open>Properties of the cloud connection configuration\<close>

lemma filter_deactivated:
  "filter cfg_is_active (map (\<lambda>r. r\<lparr>cfg_is_active := False\<rparr>) rs) = []"
  by (induction rs) simp_all

lemma save_oriontax_config_result:
  assumes "save_oriontax_config c now h p dbn usr pw ssl t = (True, t')"
  shows "\<exists>enc. encrypt c pw = Inr enc \<and>
           t' = t\<lparr>config_oriontax :=
                    map (\<lambda>r. r\<lparr>cfg_is_active := False\<rparr>) (config_oriontax t) @
                    [\<lparr>cfg_id = Suc (config_seq t), host = h, port = p, database_name = dbn,
                      cfg_username = usr, password_encrypted = enc, use_ssl = ssl,
                      cfg_is_active = True, cfg_created_at = now, cfg_updated_at = now\<rparr>],
                  config_seq := Suc (config_seq t)\<rparr>"
  using assms by (cases "encrypt c pw") (auto simp: save_oriontax_config_def)

text \<open>
  Claim C5. After a call of \<open>save_oriontax_config\<close> that returns \<open>True\<close>, the table
  holds the rows it held before, each now inactive, followed by one new row; that row is
  the only active one, and \<open>get_oriontax_config\<close> returns its data, with the password
  obtained by decrypting the stored ciphertext.
\<close>

theorem save_oriontax_config_single_active:
  "save_oriontax_config c now h p dbn usr pw ssl t = (True, t') \<longrightarrow>
     (\<exists>enc new.
        encrypt c pw = Inr enc \<and>
        new = \<lparr>cfg_id = Suc (config_seq t), host = h, port = p, database_name = dbn,
                cfg_username = usr, password_encrypted = enc, use_ssl = ssl,
                cfg_is_active = True, cfg_created_at = now, cfg_updated_at = now\<rparr> \<and>
        config_oriontax t' =
          map (\<lambda>r. r\<lparr>cfg_is_active := False\<rparr>) (config_oriontax t) @ [new] \<and>
        filter cfg_is_active (config_oriontax t') = [new] \<and>
        length (filter cfg_is_active (config_oriontax t')) = 1 \<and>
        get_oriontax_config c t' =
          (case decrypt c enc of
             Inl e \<Rightarrow> Inl e
           | Inr pw' \<Rightarrow>
               Inr (Some \<lparr>d_id = Suc (config_seq t), d_host = h, d_port = p,
                          d_database_name = dbn, d_username = usr, d_password = pw',
                          d_use_ssl = ssl, d_is_active = True, d_created_at = now,
                          d_updated_at = now\<rparr>)))"
proof
  assume "save_oriontax_config c now h p dbn usr pw ssl t = (True, t')"
  then obtain enc where enc: "encrypt c pw = Inr enc"
    and t': "t' = t\<lparr>config_oriontax :=
                    map (\<lambda>r. r\<lparr>cfg_is_active := False\<rparr>) (config_oriontax t) @
                    [\<lparr>cfg_id = Suc (config_seq t), host = h, port = p, database_name = dbn,
                      cfg_username = usr, password_encrypted = enc, use_ssl = ssl,
                      cfg_is_active = True, cfg_created_at = now, cfg_updated_at = now\<rparr>],
                  config_seq := Suc (config_seq t)\<rparr>"
    using save_oriontax_config_result by blast
  define new where "new = \<lparr>cfg_id = Suc (config_seq t), host = h, port = p,
                database_name = dbn, cfg_username = usr, password_encrypted = enc,
                use_ssl = ssl, cfg_is_active = True, cfg_created_at = now,
                cfg_updated_at = now\<rparr>"
  have rows: "config_oriontax t' =
          map (\<lambda>r. r\<lparr>cfg_is_active := False\<rparr>) (config_oriontax t) @ [new]"
    by (simp add: t' new_def)
  have act: "filter cfg_is_active (config_oriontax t') = [new]"
    by (simp add: rows filter_deactivated) (simp add: new_def)
  have get: "get_oriontax_config c t' =
          (case decrypt c enc of
             Inl e \<Rightarrow> Inl e
           | Inr pw' \<Rightarrow>
               Inr (Some \<lparr>d_id = Suc (config_seq t), d_host = h, d_port = p,
                          d_database_name = dbn, d_username = usr, d_password = pw',
                          d_use_ssl = ssl, d_is_active = True, d_created_at = now,
                          d_updated_at = now\<rparr>))"
    unfolding get_oriontax_config_def act by (simp add: new_def split: sum.split)
  from enc rows act get show "\<exists>enc new.
        encrypt c pw = Inr enc \<and>
        new = \<lparr>cfg_id = Suc (config_seq t), host = h, port = p, database_name = dbn,
                cfg_username = usr, password_encrypted = enc, use_ssl = ssl,
                cfg_is_active = True, cfg_created_at = now, cfg_updated_at = now\<rparr> \<and>
        config_oriontax t' =
          map (\<lambda>r. r\<lparr>cfg_is_active := False\<rparr>) (config_oriontax t) @ [new] \<and>
        filter cfg_is_active (config_oriontax t') = [new] \<and>
        length (filter cfg_is_active (config_oriontax t')) = 1 \<and>
        get_oriontax_config c t' =
          (case decrypt c enc of
             Inl e \<Rightarrow> Inl e
           | Inr pw' \<Rightarrow>
               Inr (Some \<lparr>d_id = Suc (config_seq t), d_host = h, d_port = p,
                          d_database_name = dbn, d_username = usr, d_password = pw',
                          d_use_ssl = ssl, d_is_active = True, d_created_at = now,
                          d_updated_at = now\<rparr>))"
    by (intro exI [of _ enc] exI [of _ new]) (simp add: new_def)
qed

theorem save_oriontax_config_single_active_witness:
  "save_oriontax_config
      \<lparr>fernet_encrypt = (\<lambda>s. Inr (rev s)), fernet_decrypt = (\<lambda>s. Inr (rev s))\<rparr>
      20 ''db.example'' 5432 ''orion'' ''sync'' ''abc'' True
      \<lparr>config_oriontax =
         [\<lparr>cfg_id = 1, host = ''old.example'', port = 5432, database_name = ''orion'',
           cfg_username = ''sync'', password_encrypted = ''zyx'', use_ssl = True,
           cfg_is_active = True, cfg_created_at = 10, cfg_updated_at = 10\<rparr>],
       config_seq = 1\<rparr> =
     (True,
      \<lparr>config_oriontax =
         [\<lparr>cfg_id = 1, host = ''old.example'', port = 5432, database_name = ''orion'',
           cfg_username = ''sync'', password_encrypted = ''zyx'', use_ssl = True,
           cfg_is_active = False, cfg_created_at = 10, cfg_updated_at = 10\<rparr>,
          \<lparr>cfg_id = 2, host = ''db.example'', port = 5432, database_name = ''orion'',
           cfg_username = ''sync'', password_encrypted = ''cba'', use_ssl = True,
           cfg_is_active = True, cfg_created_at = 20, cfg_updated_at = 20\<rparr>],
       config_seq = 2\<rparr>) \<and>
   get_oriontax_config
      \<lparr>fernet_encrypt = (\<lambda>s. Inr (rev s)), fernet_decrypt = (\<lambda>s. Inr (rev s))\<rparr>
      \<lparr>config_oriontax =
         [\<lparr>cfg_id = 1, host = ''old.example'', port = 5432, database_name = ''orion'',
           cfg_username = ''sync'', password_encrypted = ''zyx'', use_ssl = True,
           cfg_is_active = False, cfg_created_at = 10, cfg_updated_at = 10\<rparr>,
          \<lparr>cfg_id = 2, host = ''db.example'', port = 5432, database_name = ''orion'',
           cfg_username = ''sync'', password_encrypted = ''cba'', use_ssl = True,
           cfg_is_active = True, cfg_created_at = 20, cfg_updated_at = 20\<rparr>],
       config_seq = 2\<rparr> =
     Inr (Some \<lparr>d_id = 2, d_host = ''db.example'', d_port = 5432, d_database_name = ''orion'',
                d_username = ''sync'', d_password = ''abc'', d_use_ssl = True,
                d_is_active = True, d_created_at = 20, d_updated_at = 20\<rparr>)"
proof -
  let ?c = "\<lparr>fernet_encrypt = (\<lambda>s. Inr (rev s)), fernet_decrypt = (\<lambda>s. Inr (rev s))\<rparr>"
  let ?t = "\<lparr>config_oriontax =
         [\<lparr>cfg_id = 1, host = ''old.example'', port = 5432, database_name = ''orion'',
           cfg_username = ''sync'', password_encrypted = ''zyx'', use_ssl = True,
           cfg_is_active = True, cfg_created_at = 10, cfg_updated_at = 10\<rparr>],
       config_seq = 1\<rparr>"
  let ?t' = "\<lparr>config_oriontax =
         [\<lparr>cfg_id = 1, host = ''old.example'', port = 5432, database_name = ''orion'',
           cfg_username = ''sync'', password_encrypted = ''zyx'', use_ssl = True,
           cfg_is_active = False, cfg_created_at = 10, cfg_updated_at = 10\<rparr>,
          \<lparr>cfg_id = 2, host = ''db.example'', port = 5432, database_name = ''orion'',
           cfg_username = ''sync'', password_encrypted = ''cba'', use_ssl = True,
           cfg_is_active = True, cfg_created_at = 20, cfg_updated_at = 20\<rparr>],
       config_seq = 2\<rparr>"
  have s: "save_oriontax_config ?c 20 ''db.example'' 5432 ''orion'' ''sync'' ''abc'' True ?t
             = (True, ?t')"
    by (simp add: save_oriontax_config_def encrypt_def)
  have e: "encrypt ?c ''abc'' = Inr ''cba''" by (simp add: encrypt_def)
  have d: "decrypt ?c ''cba'' = Inr ''abc''" by (simp add: decrypt_def)
  from save_oriontax_config_single_active
         [of ?c 20 "''db.example''" 5432 "''orion''" "''sync''" "''abc''" True ?t ?t',
          THEN mp, OF s]
  obtain enc where "encrypt ?c ''abc'' = Inr enc"
    and g: "get_oriontax_config ?c ?t' =
          (case decrypt ?c enc of
             Inl e \<Rightarrow> Inl e
           | Inr pw' \<Rightarrow>
               Inr (Some \<lparr>d_id = Suc (config_seq ?t), d_host = ''db.example'', d_port = 5432,
                          d_database_name = ''orion'', d_username = ''sync'',
                          d_password = pw', d_use_ssl = True, d_is_active = True,
                          d_created_at = 20, d_updated_at = 20\<rparr>))"
    by blast
  with e have "enc = ''cba''" by simp
  with g d have "get_oriontax_config ?c ?t' =
     Inr (Some \<lparr>d_id = 2, d_host = ''db.example'', d_port = 5432, d_database_name = ''orion'',
                d_username = ''sync'', d_password = ''abc'', d_use_ssl = True,
                d_is_active = True, d_created_at = 20, d_updated_at = 20\<rparr>)"
    by simp
  with s show ?thesis by blast
qed

section \<open>Properties of the connection test\<close>

lemma connect_success_connected:
  assumes "connect srv cl = (Inr b, cl1)"
  shows "connection cl1"
  using assms
  by (auto simp: connect_def init_thick_mode_def
           split: option.splits if_splits prod.splits)

lemma connect_failure_keeps_connection:
  assumes "connect srv cl = (Inl e, cl1)"
  shows "connection cl1 = connection cl"
  using assms
  by (auto simp: connect_def init_thick_mode_def
           split: option.splits if_splits prod.splits)

lemma test_connection_success:
  assumes "test_connection srv cl = ((True, m), cl')"
  shows "\<not> connection cl' \<and>
         (\<exists>version. select_version srv = Inr (Some version) \<and>
            m = msg_conexao_bem_sucedida
                  (if thick_mode_initialized cl' then ''thick'' else ''thin'') version)"
  using assms
  by (auto simp: test_connection_def disconnect_def Let_def
           split: sum.splits option.splits prod.splits if_splits)

lemma test_connection_query_failure:
  assumes "connect srv cl = (Inr b, cl1)"
    and "select_dual srv = Some e \<or> (select_dual srv = None \<and> select_version srv = Inl e)"
    and "config cl ''host'' \<noteq> None"
  shows "test_connection srv cl = ((False, msg_erro e), cl1) \<and> connection cl1"
proof -
  from assms(3) obtain v where "config_item cl ''host'' = Inr v"
    by (auto simp: config_item_def)
  with assms(1,2) have "test_connection srv cl = ((False, msg_erro e), cl1)"
    by (auto simp: test_connection_def)
  with connect_success_connected [OF assms(1)] show ?thesis by simp
qed

text \<open>
  Claim C6. \<open>test_connection\<close> converts every failure into a returned pair and reports
  the mode on success, but it does not disconnect in every case: \<open>disconnect\<close> is called on
  the success path only. For a server that accepts the connection and the probe query and
  refuses the version query, the call returns \<open>False\<close> with the error text and the client
  still holds its open connection.
\<close>

theorem test_connection_failure_stays_connected:
  "test_connection
     (\<lparr>thin_connect = None, init_oracle_client = (\<lambda>p. None), thick_connect = None,
       select_dual = None,
       select_version =
         Inl (DatabaseError (Some 942) ''ORA-00942: table or view does not exist''),
       delete_from = (\<lambda>t. None), executemany = (\<lambda>t b. None)\<rparr> :: unit oracle_server)
     \<lparr>config = map_of [(''host'', CfgStr ''erp.example''), (''port'', CfgInt 1521),
                       (''service_name'', CfgStr ''ORCL''), (''username'', CfgStr ''mxf''),
                       (''password'', CfgStr ''secret''),
                       (''instant_client_path'', CfgNone)],
      connection = False, thick_mode_initialized = False\<rparr> =
   ((False, ''Erro: ORA-00942: table or view does not exist''),
    \<lparr>config = map_of [(''host'', CfgStr ''erp.example''), (''port'', CfgInt 1521),
                       (''service_name'', CfgStr ''ORCL''), (''username'', CfgStr ''mxf''),
                       (''password'', CfgStr ''secret''),
                       (''instant_client_path'', CfgNone)],
      connection = True, thick_mode_initialized = False\<rparr>)"
  by (simp add: test_connection_def config_item_def connect_def missing_connect_key_def
                msg_erro_def)

section \<open>Properties of the bulk insert\<close>

lemma clean_row_length: "length (fst (clean_row lib tn cols r)) = length cols"
  by (simp add: clean_row_def Let_def)

lemma run_executemany_ok:
  assumes "run_executemany srv tn batch s = (None, s')"
  shows "tables s' = (tables s)(tn := tables s tn @ batch) \<and> committed s' = committed s \<and>
         log s' = log s"
  using assms by (auto simp: run_executemany_def split: option.splits)

lemma run_executemany_error:
  assumes "run_executemany srv tn batch s = (Some e, s')"
  shows "s' = s \<and> executemany srv tn batch = Some e"
  using assms by (auto simp: run_executemany_def split: option.splits)

lemma insert_loop_Cons:
  "insert_loop lib srv tn cols expected bs (r # rs) batch ins s =
     (if length cols \<noteq> expected
      then (Inl (ValueError (msg_count_mismatch tn (length cols) expected)),
            s\<lparr>log := log s @ snd (clean_row lib tn cols r)\<rparr>)
      else if bs \<le> Suc (length batch) then
        (case run_executemany srv tn (batch @ [fst (clean_row lib tn cols r)])
                (s\<lparr>log := log s @ snd (clean_row lib tn cols r)\<rparr>) of
           (Some e, s2) \<Rightarrow> (Inl e, s2)
         | (None, s2) \<Rightarrow>
             insert_loop lib srv tn cols expected bs rs [] (ins + Suc (length batch)) s2)
      else insert_loop lib srv tn cols expected bs rs (batch @ [fst (clean_row lib tn cols r)])
             ins (s\<lparr>log := log s @ snd (clean_row lib tn cols r)\<rparr>))"
proof -
  obtain cleaned errors where cr: "clean_row lib tn cols r = (cleaned, errors)"
    by (cases "clean_row lib tn cols r")
  have len: "length cleaned = length cols"
    using clean_row_length [of lib tn cols r] cr by simp
  obtain r2 s2 where ex:
    "run_executemany srv tn (batch @ [cleaned]) (s\<lparr>log := log s @ errors\<rparr>) = (r2, s2)"
    by (cases "run_executemany srv tn (batch @ [cleaned]) (s\<lparr>log := log s @ errors\<rparr>)")
  show ?thesis by (cases r2) (simp_all add: cr len ex Let_def)
qed

declare insert_loop.simps(2) [simp del]

lemma insert_loop_success:
  "insert_loop lib srv tn cols expected bs rs batch ins s = (Inr (batch', ins'), s') \<Longrightarrow>
     tables s' tn @ batch' =
       tables s tn @ batch @ map (\<lambda>r. fst (clean_row lib tn cols r)) rs \<and>
     ins' + length batch' = ins + length batch + length rs \<and>
     (\<forall>t. t \<noteq> tn \<longrightarrow> tables s' t = tables s t) \<and>
     committed s' = committed s \<and>
     log s' = log s @ concat (map (\<lambda>r. snd (clean_row lib tn cols r)) rs)"
proof (induction rs arbitrary: batch ins s)
  case Nil
  then show ?case by simp
next
  case (Cons r rs)
  let ?row = "fst (clean_row lib tn cols r)"
  let ?s1 = "s\<lparr>log := log s @ snd (clean_row lib tn cols r)\<rparr>"
  from Cons.prems have len: "length cols = expected"
    by (simp only: insert_loop_Cons split: if_splits) simp
  show ?case
  proof (cases "bs \<le> Suc (length batch)")
    case True
    obtain r2 s2 where ex: "run_executemany srv tn (batch @ [?row]) ?s1 = (r2, s2)"
      by (cases "run_executemany srv tn (batch @ [?row]) ?s1")
    with Cons.prems len True have none: "r2 = None"
      by (cases r2) (simp_all add: insert_loop_Cons)
    with Cons.prems len True ex
    have rec: "insert_loop lib srv tn cols expected bs rs [] (ins + Suc (length batch)) s2 =
                 (Inr (batch', ins'), s')"
      by (simp add: insert_loop_Cons)
    from ex none have s2: "tables s2 = (tables s)(tn := tables s tn @ batch @ [?row])"
      "committed s2 = committed s" "log s2 = log ?s1"
      using run_executemany_ok [of srv tn "batch @ [?row]" ?s1 s2] by simp_all
    from Cons.IH [OF rec] s2 show ?thesis by simp
  next
    case False
    with Cons.prems len
    have rec: "insert_loop lib srv tn cols expected bs rs (batch @ [?row]) ins ?s1 =
                 (Inr (batch', ins'), s')"
      by (simp add: insert_loop_Cons)
    from Cons.IH [OF rec] show ?thesis by simp
  qed
qed

lemma insert_loop_error:
  "insert_loop lib srv tn cols expected bs rs batch ins s = (Inl e, s') \<Longrightarrow>
   length cols = expected \<Longrightarrow>
     (\<exists>b. executemany srv tn b = Some e) \<and> committed s' = committed s"
proof (induction rs arbitrary: batch ins s)
  case Nil
  then show ?case by simp
next
  case (Cons r rs)
  let ?row = "fst (clean_row lib tn cols r)"
  let ?s1 = "s\<lparr>log := log s @ snd (clean_row lib tn cols r)\<rparr>"
  show ?case
  proof (cases "bs \<le> Suc (length batch)")
    case True
    obtain r2 s2 where ex: "run_executemany srv tn (batch @ [?row]) ?s1 = (r2, s2)"
      by (cases "run_executemany srv tn (batch @ [?row]) ?s1")
    show ?thesis
    proof (cases r2)
      case None
      with Cons.prems True ex
      have rec: "insert_loop lib srv tn cols expected bs rs [] (ins + Suc (length batch)) s2 =
                   (Inl e, s')"
        by (simp add: insert_loop_Cons)
      from ex None have "committed s2 = committed s"
        using run_executemany_ok [of srv tn "batch @ [?row]" ?s1 s2] by simp
      with Cons.IH [OF rec Cons.prems(2)] show ?thesis by simp
    next
      case (Some e')
      with Cons.prems True ex have "e' = e" "s' = s2"
        by (simp_all add: insert_loop_Cons)
      with ex Some run_executemany_error [of srv tn "batch @ [?row]" ?s1 e s2]
      show ?thesis by auto
    qed
  next
    case False
    with Cons.prems
    have rec: "insert_loop lib srv tn cols expected bs rs (batch @ [?row]) ins ?s1 =
                 (Inl e, s')"
      by (simp add: insert_loop_Cons)
    from Cons.IH [OF rec Cons.prems(2)] show ?thesis by simp
  qed
qed


section \<open>Properties of the reindexing and of the staging-table write\<close>

lemma mapped_table_cases:
  assumes "TABLE_COLUMNS tn = Some cols"
  shows "tn = ''MXF_TMP_ICMS_SAIDA'' \<or> tn = ''MXF_TMP_PIS_COFINS'' \<or> tn = ''MXF_TMP_CBS_IBS''"
  using assms by (simp add: TABLE_COLUMNS_def split: if_splits)

lemma expected_cols_mapped:
  assumes "TABLE_COLUMNS tn = Some cols"
  shows "expected_cols tn = Some (length cols)"
  using assms by (auto simp: TABLE_COLUMNS_def expected_cols_def split: if_splits)

lemma table_columns_distinct:
  assumes "TABLE_COLUMNS tn = Some cols"
  shows "distinct cols"
  using assms by (auto simp: TABLE_COLUMNS_def split: if_splits)


lemma reindex_error:
  assumes "reindex target df = Inl e"
  shows "e = ValueError ''cannot reindex on an axis with duplicate labels'' \<and>
         \<not> distinct (map fst (columns df))"
  using assms by (auto simp: reindex_def Let_def split: if_splits)

lemma reindex_upper:
  "reindex cols (df\<lparr>columns := map (\<lambda>col. (upper (fst col), snd col)) (columns df)\<rparr>) =
     (if \<not> distinct (map (\<lambda>c. upper (fst c)) (columns df))
      then Inl (ValueError ''cannot reindex on an axis with duplicate labels'')
      else Inr \<lparr>columns =
                  map (\<lambda>c. (c, case map_of (map (\<lambda>col. (upper (fst col), snd col)) (columns df)) c
                               of Some b \<Rightarrow> b | None \<Rightarrow> False)) cols,
                rows = map (\<lambda>r. map (row_get (map (\<lambda>c. upper (fst c)) (columns df)) r) cols)
                           (rows df)\<rparr>)"
  unfolding reindex_def Let_def by (simp add: comp_def)

lemma insert_dataframe_oracle_unfold:
  assumes "TABLE_COLUMNS tn = Some cols"
    and "distinct (map (\<lambda>c. upper (fst c)) (columns df))"
  shows "insert_dataframe_oracle lib srv df tn bs s =
     (case insert_loop lib srv tn cols (length cols) bs
             (map (\<lambda>r. map (row_get (map (\<lambda>c. upper (fst c)) (columns df)) r) cols) (rows df))
             [] 0 s of
        (Inl e, s1) \<Rightarrow> (Inl e, s1)
      | (Inr (batch, inserted_rows), s1) \<Rightarrow>
          (if batch \<noteq> [] then
             (case run_executemany srv tn batch s1 of
                (Some e, s2) \<Rightarrow> (Inl e, s2)
              | (None, s2) \<Rightarrow> (Inr (inserted_rows + length batch), s2))
           else (Inr inserted_rows, s1)))"
  unfolding insert_dataframe_oracle_def reindex_upper
  by (simp add: assms expected_cols_mapped [OF assms(1)] comp_def)

lemma insert_dataframe_oracle_duplicates:
  assumes "TABLE_COLUMNS tn = Some cols"
    and "\<not> distinct (map (\<lambda>c. upper (fst c)) (columns df))"
  shows "insert_dataframe_oracle lib srv df tn bs s =
     (Inl (ValueError ''cannot reindex on an axis with duplicate labels''), s)"
  unfolding insert_dataframe_oracle_def reindex_upper by (simp add: assms)

lemma insert_dataframe_oracle_unmapped:
  assumes "TABLE_COLUMNS tn = None"
  shows "insert_dataframe_oracle lib srv df tn bs s =
     (Inl (ValueError (msg_tabela_nao_mapeada tn)), s)"
  unfolding insert_dataframe_oracle_def by (simp add: assms)

lemma insert_dataframe_oracle_success:
  assumes "insert_dataframe_oracle lib srv df tn bs s = (Inr n, s')"
  shows "\<exists>cols. TABLE_COLUMNS tn = Some cols \<and>
           distinct (map (\<lambda>c. upper (fst c)) (columns df)) \<and>
           n = length (rows df) \<and>
           tables s' tn = tables s tn @
             map (\<lambda>r. fst (clean_row lib tn cols
                    (map (row_get (map (\<lambda>c. upper (fst c)) (columns df)) r) cols))) (rows df) \<and>
           (\<forall>t. t \<noteq> tn \<longrightarrow> tables s' t = tables s t) \<and>
           committed s' = committed s \<and>
           log s' = log s @
             concat (map (\<lambda>r. snd (clean_row lib tn cols
                    (map (row_get (map (\<lambda>c. upper (fst c)) (columns df)) r) cols))) (rows df))"
proof -
  obtain cols where tc: "TABLE_COLUMNS tn = Some cols"
    using assms by (cases "TABLE_COLUMNS tn") (simp_all add: insert_dataframe_oracle_unmapped)
  have d: "distinct (map (\<lambda>c. upper (fst c)) (columns df))"
    using assms tc by (cases "distinct (map (\<lambda>c. upper (fst c)) (columns df))")
      (simp_all add: insert_dataframe_oracle_duplicates)
  let ?rs = "map (\<lambda>r. map (row_get (map (\<lambda>c. upper (fst c)) (columns df)) r) cols) (rows df)"
  obtain res s1 where loop:
    "insert_loop lib srv tn cols (length cols) bs ?rs [] 0 s = (res, s1)"
    by (cases "insert_loop lib srv tn cols (length cols) bs ?rs [] 0 s")
  from assms loop obtain batch ins where res: "res = Inr (batch, ins)"
    by (cases res) (auto simp: insert_dataframe_oracle_unfold [OF tc d])
  note inv = insert_loop_success [OF loop [unfolded res]]
  show ?thesis
  proof (cases "batch = []")
    case True
    with assms loop res have "n = ins" "s' = s1"
      by (simp_all add: insert_dataframe_oracle_unfold [OF tc d])
    with inv True tc d show ?thesis by (simp add: comp_def)
  next
    case False
    obtain r2 s2 where ex: "run_executemany srv tn batch s1 = (r2, s2)"
      by (cases "run_executemany srv tn batch s1")
    with assms loop res False have r2: "r2 = None" and n: "n = ins + length batch"
      and s': "s' = s2"
      by (cases r2; simp add: insert_dataframe_oracle_unfold [OF tc d])+
    from run_executemany_ok [OF ex [unfolded r2]]
    have s2: "tables s2 = (tables s1)(tn := tables s1 tn @ batch)"
      "committed s2 = committed s1" "log s2 = log s1" by simp_all
    from inv n s' s2 tc d show ?thesis by (simp add: comp_def)
  qed
qed

lemma insert_dataframe_oracle_error:
  assumes "insert_dataframe_oracle lib srv df tn bs s = (Inl e, s')"
  shows "committed s' = committed s \<and>
         (e = ValueError (msg_tabela_nao_mapeada tn) \<and> TABLE_COLUMNS tn = None \<or>
          e = ValueError ''cannot reindex on an axis with duplicate labels'' \<and>
            \<not> distinct (map (\<lambda>c. upper (fst c)) (columns df)) \<or>
          (\<exists>b. executemany srv tn b = Some e))"
proof (cases "TABLE_COLUMNS tn")
  case None
  with assms show ?thesis by (simp add: insert_dataframe_oracle_unmapped)
next
  case (Some cols)
  show ?thesis
  proof (cases "distinct (map (\<lambda>c. upper (fst c)) (columns df))")
    case False
    with assms Some show ?thesis by (simp add: insert_dataframe_oracle_duplicates)
  next
    case True
    let ?rs = "map (\<lambda>r. map (row_get (map (\<lambda>c. upper (fst c)) (columns df)) r) cols) (rows df)"
    obtain res s1 where loop:
      "insert_loop lib srv tn cols (length cols) bs ?rs [] 0 s = (res, s1)"
      by (cases "insert_loop lib srv tn cols (length cols) bs ?rs [] 0 s")
    show ?thesis
    proof (cases res)
      case (Inl e')
      with assms loop have "e' = e" "s1 = s'"
        by (simp_all add: insert_dataframe_oracle_unfold [OF Some True])
      with insert_loop_error [OF loop [unfolded Inl]] show ?thesis by simp
    next
      case (Inr p)
      obtain batch ins where p: "p = (batch, ins)" by (cases p)
      note inv = insert_loop_success [OF loop [unfolded Inr p]]
      obtain r2 s2 where ex: "run_executemany srv tn batch s1 = (r2, s2)"
        by (cases "run_executemany srv tn batch s1")
      from assms loop Inr p ex have ne: "batch \<noteq> []" and r2: "r2 = Some e" and "s' = s2"
        by (cases "batch = []"; cases r2;
            simp add: insert_dataframe_oracle_unfold [OF Some True])+
      with run_executemany_error [OF ex [unfolded r2]] inv show ?thesis by auto
    qed
  qed
qed

lemma run_delete_ok:
  assumes "run_delete srv t s = (None, s')"
  shows "tables s' = (tables s)(t := []) \<and> committed s' = committed s \<and> log s' = log s"
  using assms by (auto simp: run_delete_def split: option.splits)



lemma delete_all_ok:
  "delete_all srv ts s = (None, s') \<Longrightarrow>
     (\<forall>t. tables s' t = (if t \<in> set ts then [] else tables s t)) \<and> log s' = log s"
proof (induction ts arbitrary: s)
  case Nil
  then show ?case by simp
next
  case (Cons t ts)
  obtain r1 s1 where d: "run_delete srv t s = (r1, s1)" by (cases "run_delete srv t s")
  with Cons.prems have r1: "r1 = None" and rest: "delete_all srv ts s1 = (None, s')"
    by (cases r1; simp)+
  from Cons.IH [OF rest] run_delete_ok [OF d [unfolded r1]] show ?case by simp
qed


lemma normalize_rows_length:
  "length (rows (normalize_dataframe_for_oracle lib df)) = length (rows df)"
  by (simp add: normalize_dataframe_for_oracle_def)

lemma write_tables_success:
  "write_tables lib srv dfs tm tot s = (Inr tot', s') \<Longrightarrow> distinct (map snd tm) \<Longrightarrow>
     (\<forall>(k, tn) \<in> set tm.
         length (tables s' tn) = length (tables s tn) +
           (if tn = ''MXF_TMP_ICMS_ENTRADA'' then 0 else rows_of_frame dfs k)) \<and>
     (\<forall>t. t \<notin> snd ` set tm \<longrightarrow> tables s' t = tables s t) \<and>
     tot' = tot +
       (\<Sum>(k, tn) \<leftarrow> tm. if tn = ''MXF_TMP_ICMS_ENTRADA'' then 0 else rows_of_frame dfs k)"
proof (induction tm arbitrary: tot s)
  case Nil
  then show ?case by simp
next
  case (Cons p tm)
  obtain k tn where p: "p = (k, tn)" by (cases p)
  from Cons.prems(2) p have fresh: "tn \<notin> snd ` set tm" and dist: "distinct (map snd tm)"
    by auto
  let ?n = "if tn = ''MXF_TMP_ICMS_ENTRADA'' then 0 else rows_of_frame dfs k"
  have step: "\<exists>s1. write_tables lib srv dfs tm (tot + ?n) s1 = (Inr tot', s') \<and>
                 length (tables s1 tn) = length (tables s tn) + ?n \<and>
                 (\<forall>t. t \<noteq> tn \<longrightarrow> tables s1 t = tables s t)"
  proof (cases "dfs k")
    case None
    with Cons.prems(1) p show ?thesis by (auto simp: rows_of_frame_def)
  next
    case (Some df)
    show ?thesis
    proof (cases "df_empty df \<or> tn = ''MXF_TMP_ICMS_ENTRADA''")
      case True
      with Cons.prems(1) p Some show ?thesis
        by (auto simp: rows_of_frame_def split: if_splits)
    next
      case False
      obtain r1 s1 where i:
        "insert_dataframe_oracle lib srv (normalize_dataframe_for_oracle lib df) tn 5000 s
           = (r1, s1)"
        by (cases "insert_dataframe_oracle lib srv (normalize_dataframe_for_oracle lib df)
                     tn 5000 s")
      from Cons.prems(1) p Some False i obtain n where r1: "r1 = Inr n"
        and rest: "write_tables lib srv dfs tm (tot + n) s1 = (Inr tot', s')"
        by (cases r1) auto
      from insert_dataframe_oracle_success [OF i [unfolded r1]]
      have "n = length (rows df)" "length (tables s1 tn) = length (tables s tn) + length (rows df)"
        "\<forall>t. t \<noteq> tn \<longrightarrow> tables s1 t = tables s t"
        by (auto simp: normalize_rows_length)
      with rest Some False show ?thesis by (auto simp: rows_of_frame_def)
    qed
  qed
  then obtain s1 where rest: "write_tables lib srv dfs tm (tot + ?n) s1 = (Inr tot', s')"
    and here: "length (tables s1 tn) = length (tables s tn) + ?n"
    and others: "\<forall>t. t \<noteq> tn \<longrightarrow> tables s1 t = tables s t"
    by blast
  note IH = Cons.IH [OF rest dist]
  have a: "\<forall>(k', tn') \<in> set (p # tm).
         length (tables s' tn') = length (tables s tn') +
           (if tn' = ''MXF_TMP_ICMS_ENTRADA'' then 0 else rows_of_frame dfs k')"
  proof (clarify)
    fix k' tn' assume m: "(k', tn') \<in> set (p # tm)"
    show "length (tables s' tn') = length (tables s tn') +
           (if tn' = ''MXF_TMP_ICMS_ENTRADA'' then 0 else rows_of_frame dfs k')"
    proof (cases "(k', tn') = p")
      case True
      with p have "k' = k" "tn' = tn" by simp_all
      moreover from IH fresh have "tables s' tn = tables s1 tn" by blast
      ultimately show ?thesis using here by simp
    next
      case False
      with m have in_tm: "(k', tn') \<in> set tm" by simp
      with fresh have "tn' \<noteq> tn" by force
      with others have "tables s1 tn' = tables s tn'" by blast
      moreover from IH in_tm
      have "length (tables s' tn') = length (tables s1 tn') +
           (if tn' = ''MXF_TMP_ICMS_ENTRADA'' then 0 else rows_of_frame dfs k')"
        by blast
      ultimately show ?thesis by simp
    qed
  qed
  have b: "\<forall>t. t \<notin> snd ` set (p # tm) \<longrightarrow> tables s' t = tables s t"
    using IH others p by auto
  have c: "tot' = tot +
       (\<Sum>(k, tn) \<leftarrow> p # tm. if tn = ''MXF_TMP_ICMS_ENTRADA'' then 0 else rows_of_frame dfs k)"
    using IH p by simp
  from a b c show ?case by blast
qed

lemma write_dataframes_success:
  assumes "write_dataframes_to_tmp_tables lib srv dfs cl s = (Inr (ok, n), cl', s')"
  shows "\<exists>s1 s2. delete_all srv tmp_tables s = (None, s1) \<and>
           write_tables lib srv dfs table_map 0 s1 = (Inr n, s2) \<and>
           s' = commit s2 \<and> ok \<and> connection cl'"
proof -
  obtain rc cl1 where c:
    "(if connection cl then (Inr True, cl) else connect srv cl) = (rc, cl1)"
    by (cases "if connection cl then (Inr True, cl) else connect srv cl")
  from assms c obtain b where rc: "rc = Inr b"
    by (cases rc) (auto simp: write_dataframes_to_tmp_tables_def write_failed_def)
  have conn: "connection cl1"
    using c rc connect_success_connected [of srv cl b cl1] by (auto split: if_splits)
  obtain rd s1 where d: "delete_all srv tmp_tables s = (rd, s1)"
    by (cases "delete_all srv tmp_tables s")
  from assms c rc d have rd: "rd = None"
    by (cases rd) (auto simp: write_dataframes_to_tmp_tables_def write_failed_def)
  obtain rw s2 where w: "write_tables lib srv dfs table_map 0 s1 = (rw, s2)"
    by (cases "write_tables lib srv dfs table_map 0 s1")
  from assms c rc d rd w have "rw = Inr n \<and> s' = commit s2 \<and> ok \<and> cl' = cl1"
    by (cases rw) (auto simp: write_dataframes_to_tmp_tables_def write_failed_def)
  with d rd w conn show ?thesis by auto
qed

text \<open>
  Claim C1. After a run of \<open>write_dataframes_to_tmp_tables\<close> that returns, whatever
  dataframes it was given and whatever the four staging tables held before,
  \<open>MXF_TMP_ICMS_ENTRADA\<close> is empty, each of the other three staging tables holds as many
  rows as the dataframe under its key has (none when that dataframe is missing or
  empty), the returned total is the sum of these three numbers, so the rows of the
  \<open>icms_entrada\<close> dataframe are not counted, no other table has changed, and the state is
  committed.
\<close>

theorem write_dataframes_clears_four_fills_three:
  "write_dataframes_to_tmp_tables lib srv dfs cl s = (Inr (ok, n), cl', s') \<longrightarrow>
     ok \<and>
     tables s' ''MXF_TMP_ICMS_ENTRADA'' = [] \<and>
     length (tables s' ''MXF_TMP_ICMS_SAIDA'') = rows_of_frame dfs ''icms_saida'' \<and>
     length (tables s' ''MXF_TMP_PIS_COFINS'') = rows_of_frame dfs ''pis_cofins'' \<and>
     length (tables s' ''MXF_TMP_CBS_IBS'') = rows_of_frame dfs ''cbs_ibs'' \<and>
     n = rows_of_frame dfs ''icms_saida'' + rows_of_frame dfs ''pis_cofins'' +
         rows_of_frame dfs ''cbs_ibs'' \<and>
     (\<forall>t. t \<notin> set tmp_tables \<longrightarrow> tables s' t = tables s t) \<and>
     committed s' = tables s'"
proof
  assume "write_dataframes_to_tmp_tables lib srv dfs cl s = (Inr (ok, n), cl', s')"
  from write_dataframes_success [OF this]
  obtain s1 s2 where d: "delete_all srv tmp_tables s = (None, s1)"
    and w: "write_tables lib srv dfs table_map 0 s1 = (Inr n, s2)"
    and s': "s' = commit s2" and ok: ok
    by blast
  from delete_all_ok [OF d]
  have s1: "\<And>t. tables s1 t = (if t \<in> set tmp_tables then [] else tables s t)" by blast
  have dist: "distinct (map snd table_map)" by (simp add: table_map_def)
  note W = write_tables_success [OF w dist]
  from W have each: "\<forall>(k, tn) \<in> set table_map.
         length (tables s2 tn) = length (tables s1 tn) +
           (if tn = ''MXF_TMP_ICMS_ENTRADA'' then 0 else rows_of_frame dfs k)"
    by blast
  from W have others: "\<forall>t. t \<notin> snd ` set table_map \<longrightarrow> tables s2 t = tables s1 t"
    by blast
  from W have sum: "n = 0 +
       (\<Sum>(k, tn) \<leftarrow> table_map. if tn = ''MXF_TMP_ICMS_ENTRADA'' then 0 else rows_of_frame dfs k)"
    by blast
  have t: "tables s' = tables s2" "committed s' = tables s2"
    by (simp_all add: s' commit_def)
  have e: "tables s' ''MXF_TMP_ICMS_ENTRADA'' = []"
    using each s1 [of "''MXF_TMP_ICMS_ENTRADA''"] by (simp add: t table_map_def tmp_tables_def)
  have a: "length (tables s' ''MXF_TMP_ICMS_SAIDA'') = rows_of_frame dfs ''icms_saida''"
    using each s1 [of "''MXF_TMP_ICMS_SAIDA''"] by (simp add: t table_map_def tmp_tables_def)
  have b: "length (tables s' ''MXF_TMP_PIS_COFINS'') = rows_of_frame dfs ''pis_cofins''"
    using each s1 [of "''MXF_TMP_PIS_COFINS''"] by (simp add: t table_map_def tmp_tables_def)
  have c: "length (tables s' ''MXF_TMP_CBS_IBS'') = rows_of_frame dfs ''cbs_ibs''"
    using each s1 [of "''MXF_TMP_CBS_IBS''"] by (simp add: t table_map_def tmp_tables_def)
  have n: "n = rows_of_frame dfs ''icms_saida'' + rows_of_frame dfs ''pis_cofins'' +
         rows_of_frame dfs ''cbs_ibs''"
    using sum by (simp add: table_map_def)
  have o: "\<forall>t. t \<notin> set tmp_tables \<longrightarrow> tables s' t = tables s t"
  proof (intro allI impI)
    fix x assume x: "x \<notin> set tmp_tables"
    then have "x \<notin> snd ` set table_map" by (simp add: table_map_def tmp_tables_def)
    with others have "tables s2 x = tables s1 x" by blast
    with s1 [of x] x show "tables s' x = tables s x" by (simp add: t)
  qed
  from ok e a b c n o t show "ok \<and>
     tables s' ''MXF_TMP_ICMS_ENTRADA'' = [] \<and>
     length (tables s' ''MXF_TMP_ICMS_SAIDA'') = rows_of_frame dfs ''icms_saida'' \<and>
     length (tables s' ''MXF_TMP_PIS_COFINS'') = rows_of_frame dfs ''pis_cofins'' \<and>
     length (tables s' ''MXF_TMP_CBS_IBS'') = rows_of_frame dfs ''cbs_ibs'' \<and>
     n = rows_of_frame dfs ''icms_saida'' + rows_of_frame dfs ''pis_cofins'' +
         rows_of_frame dfs ''cbs_ibs'' \<and>
     (\<forall>t. t \<notin> set tmp_tables \<longrightarrow> tables s' t = tables s t) \<and>
     committed s' = tables s'"
    by simp
qed

theorem write_dataframes_clears_four_fills_three_witness:
  "fst (write_dataframes_to_tmp_tables example_lib example_server example_frames
          example_client example_session) = Inr (True, 2) \<and>
   rows_of_frame example_frames ''icms_entrada'' = 1 \<and>
   tables example_session ''MXF_TMP_ICMS_ENTRADA'' = [[PyStr ''old'']] \<and>
   tables (snd (snd (write_dataframes_to_tmp_tables example_lib example_server example_frames
          example_client example_session))) ''MXF_TMP_ICMS_ENTRADA'' = [] \<and>
   length (tables (snd (snd (write_dataframes_to_tmp_tables example_lib example_server
          example_frames example_client example_session))) ''MXF_TMP_PIS_COFINS'') = 2"
proof -
  let ?w = "write_dataframes_to_tmp_tables example_lib example_server example_frames
              example_client example_session"
  have r: "fst ?w = Inr (True, 2)" by code_simp
  then have h: "?w = (Inr (True, 2), fst (snd ?w), snd (snd ?w))"
    by (metis prod.collapse)
  note T = write_dataframes_clears_four_fills_three
             [of example_lib example_server example_frames example_client example_session
                 True 2 "fst (snd ?w)" "snd (snd ?w)", THEN mp, OF h]
  have e: "rows_of_frame example_frames ''icms_entrada'' = 1" by code_simp
  have p: "rows_of_frame example_frames ''pis_cofins'' = 2" by code_simp
  have o: "tables example_session ''MXF_TMP_ICMS_ENTRADA'' = [[PyStr ''old'']]"
    by (simp add: example_session_def)
  from T have "tables (snd (snd ?w)) ''MXF_TMP_ICMS_ENTRADA'' = []"
    and "length (tables (snd (snd ?w)) ''MXF_TMP_PIS_COFINS'') =
           rows_of_frame example_frames ''pis_cofins''"
    by blast+
  with r e p o show ?thesis by simp
qed

section \<open>Properties of the cell cleaning\<close>

lemma startswith_iff: "startswith p s \<longleftrightarrow> (\<exists>b. s = p @ b)"
proof
  assume "startswith p s"
  then have "s = p @ drop (length p) s"
    unfolding startswith_def by (metis append_take_drop_id)
  then show "\<exists>b. s = p @ b" ..
next
  assume "\<exists>b. s = p @ b"
  then show "startswith p s" by (auto simp: startswith_def)
qed

lemma contains_iff: "contains sub s \<longleftrightarrow> (\<exists>a b. s = a @ sub @ b)"
proof (induction s)
  case Nil
  show ?case by auto
next
  case (Cons c cs)
  show ?case
  proof
    assume "contains sub (c # cs)"
    then consider "startswith sub (c # cs)" | "contains sub cs" by auto
    then show "\<exists>a b. c # cs = a @ sub @ b"
    proof cases
      case 1
      then obtain b where "c # cs = sub @ b" by (auto simp: startswith_iff)
      then have "c # cs = [] @ sub @ b" by simp
      then show ?thesis by blast
    next
      case 2
      with Cons.IH obtain a b where "cs = a @ sub @ b" by blast
      then have "c # cs = (c # a) @ sub @ b" by simp
      then show ?thesis by blast
    qed
  next
    assume "\<exists>a b. c # cs = a @ sub @ b"
    then obtain a b where ab: "c # cs = a @ sub @ b" by blast
    show "contains sub (c # cs)"
    proof (cases a)
      case Nil
      with ab have "startswith sub (c # cs)" by (auto simp: startswith_iff)
      then show ?thesis by simp
    next
      case (Cons x a')
      with ab have "cs = a' @ sub @ b" by simp
      with Cons.IH have "contains sub cs" by blast
      then show ?thesis by simp
    qed
  qed
qed

lemma upper_append: "upper (a @ b) = upper a @ upper b"
  by (simp add: upper_def)

lemma upper_DATA: "upper ''DATA'' = ''DATA''"
  by code_simp

lemma upper_DT: "upper ''DT_'' = ''DT_''"
  by code_simp

lemma is_date_column_upper:
  assumes "is_date_column c"
  shows "is_date_column (upper c)"
proof -
  from assms consider "contains ''DATA'' c" | "startswith ''DT_'' c"
    by (auto simp: is_date_column_def)
  then show ?thesis
  proof cases
    case 1
    then obtain a b where "c = a @ ''DATA'' @ b" by (auto simp: contains_iff)
    then have "upper c = upper a @ ''DATA'' @ upper b"
      by (simp only: upper_append upper_DATA)
    then have "contains ''DATA'' (upper c)" unfolding contains_iff by blast
    then show ?thesis by (simp add: is_date_column_def)
  next
    case 2
    then obtain b where "c = ''DT_'' @ b" by (auto simp: startswith_iff)
    then have "upper c = ''DT_'' @ upper b" by (simp only: upper_append upper_DT)
    then have "startswith ''DT_'' (upper c)" unfolding startswith_iff by blast
    then show ?thesis by (simp add: is_date_column_def)
  qed
qed

lemma no_date_column_saida:
  "list_all (\<lambda>col. \<not> is_date_column col) (the (TABLE_COLUMNS ''MXF_TMP_ICMS_SAIDA''))"
  by code_simp

lemma no_date_column_pis:
  "list_all (\<lambda>col. \<not> is_date_column col) (the (TABLE_COLUMNS ''MXF_TMP_PIS_COFINS''))"
  by code_simp

lemma no_date_column_cbs:
  "list_all (\<lambda>col. \<not> is_date_column col) (the (TABLE_COLUMNS ''MXF_TMP_CBS_IBS''))"
  by code_simp

lemma destination_not_date:
  assumes "TABLE_COLUMNS tn = Some cols" and "col \<in> set cols"
  shows "\<not> is_date_column col"
proof -
  from mapped_table_cases [OF assms(1)]
  have "list_all (\<lambda>col. \<not> is_date_column col) (the (TABLE_COLUMNS tn))"
    using no_date_column_saida no_date_column_pis no_date_column_cbs by auto
  with assms show ?thesis by (simp add: list_all_iff)
qed

lemma input_column_not_date:
  assumes "TABLE_COLUMNS tn = Some cols" and "upper c \<in> set cols"
  shows "\<not> is_date_column c"
  using destination_not_date [OF assms] is_date_column_upper by blast

lemma isspace_replace_comma:
  "isspace (if c = CHR '','' then CHR ''.'' else c) = isspace c"
  by (simp add: isspace_def)

lemma lower_char_comma: "lower_char c = CHR '','' \<longleftrightarrow> c = CHR '',''"
proof
  assume h: "lower_char c = CHR '',''"
  show "c = CHR '',''"
  proof (rule ccontr)
    assume ne: "c \<noteq> CHR '',''"
    let ?n = "of_char c :: nat"
    from h ne have r: "(65 \<le> ?n \<and> ?n \<le> 90) \<or> (192 \<le> ?n \<and> ?n \<le> 222 \<and> ?n \<noteq> 215)"
      and e: "char_of (?n + 32) = CHR '',''"
      by (auto simp: lower_char_def Let_def split: if_splits)
    from e have "(of_char (char_of (?n + 32)) :: nat) = of_char (CHR '','')" by simp
    then have "(?n + 32) mod 256 = 44" by simp
    with r show False by auto
  qed
next
  assume "c = CHR '',''"
  then show "lower_char c = CHR '',''" by (simp add: lower_char_def)
qed

lemma lower_char_dot: "lower_char (CHR ''.'') = CHR ''.''"
  by (simp add: lower_char_def)

lemma lower_replace_comma: "lower (replace_comma s) = replace_comma (lower s)"
proof -
  have "lower_char (if c = CHR '','' then CHR ''.'' else c) =
          (if lower_char c = CHR '','' then CHR ''.'' else lower_char c)" for c
    by (simp add: lower_char_comma lower_char_dot)
  then show ?thesis by (simp add: lower_def replace_comma_def)
qed

lemma dropWhile_isspace_replace_comma:
  "dropWhile isspace (replace_comma s) = replace_comma (dropWhile isspace s)"
  by (induction s) (simp_all add: replace_comma_def isspace_replace_comma)

lemma strip_replace_comma: "strip (replace_comma s) = replace_comma (strip s)"
proof -
  have r: "rev (replace_comma t) = replace_comma (rev t)" for t
    by (simp add: replace_comma_def rev_map)
  show ?thesis
    by (simp add: strip_def dropWhile_isspace_replace_comma r)
qed

lemma null_like_replace_comma:
  assumes "lower (strip s) \<in> set [''none'', ''null'', []]"
  shows "lower (strip (replace_comma s)) \<in> set [''none'', ''null'', []]"
proof -
  have "lower (strip (replace_comma s)) = replace_comma (lower (strip s))"
    by (simp add: strip_replace_comma lower_replace_comma)
  with assms show ?thesis by (auto simp: replace_comma_def)
qed

lemma clean_value_null_like:
  assumes "lower (strip s) \<in> set [''none'', ''null'', []]"
  shows "clean_value lib tn (PyStr s) col = (PyNone, [])"
  using assms by (simp add: clean_value_def Let_def)

lemma clean_value_PyNone: "clean_value lib tn PyNone col = (PyNone, [])"
  by (simp add: clean_value_def)

lemma normalize_cell_str:
  assumes "\<not> is_date_column c"
  shows "normalize_cell lib (c, obj) (PyStr s) =
     (if obj then (if replace_comma s \<in> set [[], ''nan'', ''NaN''] then PyNone
                   else PyStr (replace_comma s))
      else PyStr s)"
  using assms by (simp add: normalize_cell_def py_str_def Let_def)

lemma insert_dataframe_oracle_accepted:
  assumes "TABLE_COLUMNS tn = Some cols"
    and "\<forall>b. executemany srv tn b = None"
    and "distinct (map (\<lambda>c. upper (fst c)) (columns df))"
  shows "fst (insert_dataframe_oracle lib srv df tn bs s) = Inr (length (rows df))"
proof -
  obtain res s' where r: "insert_dataframe_oracle lib srv df tn bs s = (res, s')"
    by (cases "insert_dataframe_oracle lib srv df tn bs s")
  show ?thesis
  proof (cases res)
    case (Inl e)
    from insert_dataframe_oracle_error [OF r [unfolded Inl]] assms show ?thesis by auto
  next
    case (Inr n)
    from insert_dataframe_oracle_success [OF r [unfolded Inr]] r Inr show ?thesis by auto
  qed
qed

lemma strip_12_5: "strip ''12.5'' = ''12.5''" "strip ''12,5'' = ''12,5''"
  by code_simp+

lemma lower_12_5: "lower ''12.5'' = ''12.5''" "lower ''12,5'' = ''12,5''"
  by code_simp+

lemma clean_comma_decimal:
  assumes "\<not> is_date_column c" and "is_number_column tn col"
    and "float_of_str lib ''12.5'' = Some x"
  shows "clean_value lib tn (normalize_cell lib (c, obj) (PyStr ''12,5'')) col = (PyFloat x, [])"
proof -
  have r: "replace_comma ''12,5'' = ''12.5''" "replace_comma ''12.5'' = ''12.5''"
    by (simp_all add: replace_comma_def)
  show ?thesis
    using assms(2,3)
    by (cases obj)
       (simp_all add: normalize_cell_str [OF assms(1)] r clean_value_def Let_def
                      strip_12_5 lower_12_5)
qed

lemma clean_null_like:
  assumes "\<not> is_date_column c" and "lower (strip s) \<in> {''none'', ''null'', []}"
  shows "clean_value lib tn (normalize_cell lib (c, obj) (PyStr s)) col = (PyNone, [])"
proof -
  from assms(2) have n: "lower (strip s) \<in> set [''none'', ''null'', []]" by simp
  note a = clean_value_null_like [OF n, of lib tn col]
  note b = clean_value_null_like [OF null_like_replace_comma [OF n], of lib tn col]
  show ?thesis
    by (simp add: normalize_cell_str [OF assms(1)] clean_value_PyNone a b)
qed

lemma clean_exact_nan:
  assumes "\<not> is_date_column c" and "s \<in> {''nan'', ''NaN''}"
  shows "clean_value lib tn (normalize_cell lib (c, True) (PyStr s)) col = (PyNone, [])"
proof -
  from assms(2) have "replace_comma s \<in> set [[], ''nan'', ''NaN'']"
    by (auto simp: replace_comma_def)
  then show ?thesis
    by (simp add: normalize_cell_str [OF assms(1)] clean_value_PyNone)
qed

lemma clean_invalid_number:
  assumes "is_number_column tn col"
    and "lower (strip s') \<notin> {''none'', ''null'', []}"
    and "float_of_str lib (replace_comma (strip s')) = None"
  shows "clean_value lib tn (PyStr s') col = (PyNone, [InvalidNumeric tn col (PyStr s')])"
  using assms by (simp add: clean_value_def Let_def)

lemma replace_comma_idem: "replace_comma (replace_comma s) = replace_comma s"
  by (simp add: replace_comma_def)

lemma replace_comma_no_comma:
  assumes "CHR '','' \<notin> set s"
  shows "replace_comma s = s"
  using assms by (induction s) (auto simp: replace_comma_def)

lemma replace_comma_eq_iff:
  assumes "CHR '','' \<notin> set t" and "CHR ''.'' \<notin> set t"
  shows "replace_comma s = t \<longleftrightarrow> s = t"
proof
  assume h: "replace_comma s = t"
  have "CHR '','' \<notin> set s"
  proof
    assume "CHR '','' \<in> set s"
    then have "CHR ''.'' \<in> set (replace_comma s)"
      by (force simp: replace_comma_def)
    with h assms(2) show False by simp
  qed
  then have "replace_comma s = s" by (rule replace_comma_no_comma)
  with h show "s = t" by simp
next
  assume "s = t"
  with assms(1) show "replace_comma s = t" by (simp add: replace_comma_no_comma)
qed

lemma replace_comma_special:
  "replace_comma s \<in> set [[], ''nan'', ''NaN''] \<longleftrightarrow> s \<in> set [[], ''nan'', ''NaN'']"
  using replace_comma_eq_iff [of "[]" s] replace_comma_eq_iff [of "''nan''" s]
    replace_comma_eq_iff [of "''NaN''" s]
  by simp

lemma null_like_replace_comma_iff:
  "lower (strip (replace_comma s)) \<in> set [''none'', ''null'', []] \<longleftrightarrow>
   lower (strip s) \<in> set [''none'', ''null'', []]"
proof -
  have "lower (strip (replace_comma s)) = replace_comma (lower (strip s))"
    by (simp add: strip_replace_comma lower_replace_comma)
  then show ?thesis
    using replace_comma_eq_iff [of "[]" "lower (strip s)"]
      replace_comma_eq_iff [of "''none''" "lower (strip s)"]
      replace_comma_eq_iff [of "''null''" "lower (strip s)"]
    by simp
qed

lemma strip_empty: "strip [] = []"
  by (simp add: strip_def)

lemma lower_empty: "lower [] = []"
  by (simp add: lower_def)

lemma clean_string_cell:
  assumes "\<not> is_date_column c"
  shows "clean_value lib tn (normalize_cell lib (c, obj) (PyStr s)) col =
     (if obj \<and> s \<in> {''nan'', ''NaN''} then (PyNone, [])
      else if lower (strip s) \<in> {''none'', ''null'', []} then (PyNone, [])
      else if is_number_column tn col then
        (case float_of_str lib (replace_comma (strip s)) of
           Some x \<Rightarrow> (PyFloat x, [])
         | None \<Rightarrow>
             (PyNone, [InvalidNumeric tn col (PyStr (if obj then replace_comma s else s))]))
      else (PyStr (strip (if obj then replace_comma s else s)), []))"
proof (cases obj)
  case False
  then show ?thesis
    by (simp add: normalize_cell_str [OF assms] clean_value_def Let_def)
next
  case True
  show ?thesis
  proof (cases "s \<in> set [[], ''nan'', ''NaN'']")
    case in_set: True
    then have n: "normalize_cell lib (c, obj) (PyStr s) = PyNone"
      using True replace_comma_special [of s] by (simp add: normalize_cell_str [OF assms])
    from in_set consider "s = []" | "s \<in> {''nan'', ''NaN''}" by auto
    then show ?thesis
    proof cases
      case 1
      show ?thesis unfolding n by (simp add: 1 clean_value_PyNone strip_empty lower_empty)
    next
      case 2
      with True show ?thesis unfolding n by (simp add: clean_value_PyNone)
    qed
  next
    case not_in: False
    then have n: "normalize_cell lib (c, obj) (PyStr s) = PyStr (replace_comma s)"
      using True replace_comma_special [of s] by (simp add: normalize_cell_str [OF assms])
    from not_in have ne: "\<not> (obj \<and> s \<in> {''nan'', ''NaN''})" by simp
    have nl: "lower (strip (replace_comma s)) \<in> set [''none'', ''null'', []] \<longleftrightarrow>
              lower (strip s) \<in> {''none'', ''null'', []}"
      using null_like_replace_comma_iff [of s] by simp
    have rr: "replace_comma (strip (replace_comma s)) = replace_comma (strip s)"
      by (simp add: strip_replace_comma replace_comma_idem)
    show ?thesis
      unfolding n clean_value_def Let_def cell.case nl rr
      using ne True by simp
  qed
qed

lemma strip_set:
  assumes "c \<in> set s"
  shows "isspace c \<or> c \<in> set (strip s)"
proof -
  let ?d = "dropWhile isspace s"
  have s: "set s = set (takeWhile isspace s) \<union> set ?d"
    by (metis set_append takeWhile_dropWhile_id)
  have d: "set ?d = set (takeWhile isspace (rev ?d)) \<union> set (dropWhile isspace (rev ?d))"
    by (metis set_append set_rev takeWhile_dropWhile_id)
  have st: "set (strip s) = set (dropWhile isspace (rev ?d))"
    by (simp add: strip_def)
  from assms s d st consider "c \<in> set (takeWhile isspace s)"
    | "c \<in> set (takeWhile isspace (rev ?d))" | "c \<in> set (strip s)"
    by auto
  then show ?thesis
  proof cases
    case 1
    then show ?thesis by (auto dest: set_takeWhileD)
  next
    case 2
    then show ?thesis by (auto dest: set_takeWhileD)
  next
    case 3
    then show ?thesis by simp
  qed
qed

lemma not_isspace_comma: "\<not> isspace (CHR '','')"
  by (simp add: isspace_def)

lemma nan_like_no_comma:
  assumes "lower (strip s) = ''nan''"
  shows "CHR '','' \<notin> set s" and "CHR '','' \<notin> set (strip s)"
proof -
  show a: "CHR '','' \<notin> set (strip s)"
  proof
    assume "CHR '','' \<in> set (strip s)"
    then have "lower_char (CHR '','') \<in> set (lower (strip s))"
      by (simp add: lower_def)
    then show False by (simp add: assms lower_char_def)
  qed
  show "CHR '','' \<notin> set s"
  proof
    assume "CHR '','' \<in> set s"
    from strip_set [OF this] a not_isspace_comma show False by simp
  qed
qed

lemma clean_nan_like:
  assumes "\<not> is_date_column c" and "lower (strip s) = ''nan''"
    and "\<not> (obj \<and> s \<in> {''nan'', ''NaN''})"
  shows "clean_value lib tn (normalize_cell lib (c, obj) (PyStr s)) col =
     (if is_number_column tn col then
        (case float_of_str lib (strip s) of
           Some x \<Rightarrow> (PyFloat x, [])
         | None \<Rightarrow> (PyNone, [InvalidNumeric tn col (PyStr s)]))
      else (PyStr (strip s), []))"
proof -
  note nc = nan_like_no_comma [OF assms(2)]
  have r: "replace_comma s = s" "replace_comma (strip s) = strip s"
    using nc by (simp_all add: replace_comma_no_comma)
  have nl: "lower (strip s) \<notin> {''none'', ''null'', []}" by (simp add: assms(2))
  show ?thesis
    unfolding clean_string_cell [OF assms(1)] r using assms(3) nl by simp
qed

lemma row_get_map:
  assumes "col \<in> set cols"
  shows "row_get cols (map f cols) col = f col"
  using assms by (simp add: row_get_def map_of_zip_map)

lemma clean_row_reindexed:
  "clean_row lib tn cols (map f cols) =
     (map (\<lambda>col. fst (clean_value lib tn (f col) col)) cols,
      concat (map (\<lambda>col. snd (clean_value lib tn (f col) col)) cols))"
  unfolding clean_row_def Let_def by (simp add: row_get_map comp_def cong: map_cong)

lemma insert_dataframe_oracle_stored:
  assumes tc: "TABLE_COLUMNS tn = Some cols"
    and acc: "\<forall>b. executemany srv tn b = None"
    and d: "distinct (map (\<lambda>c. upper (fst c)) (columns df))"
  shows "fst (insert_dataframe_oracle lib srv df tn bs st) = Inr (length (rows df))"
    and "tables (snd (insert_dataframe_oracle lib srv df tn bs st)) tn =
           tables st tn @
           map (\<lambda>r. map (\<lambda>col. fst (clean_value lib tn
                           (row_get (map (\<lambda>c. upper (fst c)) (columns df)) r col) col)) cols)
               (rows df)"
    and "log (snd (insert_dataframe_oracle lib srv df tn bs st)) =
           log st @
           concat (map (\<lambda>r. concat (map (\<lambda>col. snd (clean_value lib tn
                           (row_get (map (\<lambda>c. upper (fst c)) (columns df)) r col) col)) cols))
                       (rows df))"
    and "committed (snd (insert_dataframe_oracle lib srv df tn bs st)) = committed st"
proof -
  obtain res st' where r: "insert_dataframe_oracle lib srv df tn bs st = (res, st')"
    by (cases "insert_dataframe_oracle lib srv df tn bs st")
  from insert_dataframe_oracle_accepted [OF tc acc d, of lib bs st] r
  have res: "res = Inr (length (rows df))" by simp
  from insert_dataframe_oracle_success [OF r [unfolded res]] tc
  have t: "tables st' tn = tables st tn @
             map (\<lambda>r. fst (clean_row lib tn cols
                    (map (row_get (map (\<lambda>c. upper (fst c)) (columns df)) r) cols))) (rows df)"
    and l: "log st' = log st @
             concat (map (\<lambda>r. snd (clean_row lib tn cols
                    (map (row_get (map (\<lambda>c. upper (fst c)) (columns df)) r) cols))) (rows df))"
    and c: "committed st' = committed st"
    by auto
  show "fst (insert_dataframe_oracle lib srv df tn bs st) = Inr (length (rows df))"
    by (simp add: r res)
  show "tables (snd (insert_dataframe_oracle lib srv df tn bs st)) tn =
           tables st tn @
           map (\<lambda>r. map (\<lambda>col. fst (clean_value lib tn
                           (row_get (map (\<lambda>c. upper (fst c)) (columns df)) r col) col)) cols)
               (rows df)"
    using t by (simp add: r clean_row_reindexed)
  show "log (snd (insert_dataframe_oracle lib srv df tn bs st)) =
           log st @
           concat (map (\<lambda>r. concat (map (\<lambda>col. snd (clean_value lib tn
                           (row_get (map (\<lambda>c. upper (fst c)) (columns df)) r col) col)) cols))
                       (rows df))"
    using l by (simp add: r clean_row_reindexed)
  show "committed (snd (insert_dataframe_oracle lib srv df tn bs st)) = committed st"
    using c by (simp add: r)
qed

lemma normalize_columns_upper:
  "map (\<lambda>c. upper (fst c)) (columns (normalize_dataframe_for_oracle lib df)) =
   map (\<lambda>c. upper (fst c)) (columns df)"
  by (simp add: normalize_dataframe_for_oracle_def comp_def)

lemma normalize_rows:
  "rows (normalize_dataframe_for_oracle lib df) =
   map (\<lambda>r. map (\<lambda>(col, v). normalize_cell lib col v) (zip (columns df) r)) (rows df)"
  by (simp add: normalize_dataframe_for_oracle_def)

lemma normalized_row_get:
  assumes "distinct (map (\<lambda>c. upper (fst c)) cs)" and "k < length cs"
    and "length r = length cs"
  shows "row_get (map (\<lambda>c. upper (fst c)) cs)
           (map (\<lambda>(col, v). normalize_cell lib col v) (zip cs r)) (upper (fst (cs ! k))) =
         normalize_cell lib (cs ! k) (r ! k)"
proof -
  let ?L = "map (\<lambda>c. upper (fst c)) cs"
  let ?N = "map (\<lambda>(col, v). normalize_cell lib col v) (zip cs r)"
  have len: "length ?L = length ?N" using assms(3) by simp
  have k: "k < length ?N" using assms(2,3) by simp
  from map_of_zip_nth [OF len assms(1) k]
  have "map_of (zip ?L ?N) (?L ! k) = Some (?N ! k)" .
  moreover have "?L ! k = upper (fst (cs ! k))" using assms(2) by simp
  moreover have "?N ! k = normalize_cell lib (cs ! k) (r ! k)" using assms(2,3) by simp
  ultimately show ?thesis by (simp add: row_get_def)
qed

lemma stored_cell:
  assumes tc: "TABLE_COLUMNS tn = Some cols"
    and acc: "\<forall>b. executemany srv tn b = None"
    and d: "distinct (map (\<lambda>c. upper (fst c)) (columns df))"
    and i: "i < length (rows df)"
    and wf: "length (rows df ! i) = length (columns df)"
    and k: "k < length (columns df)"
    and j: "j < length cols"
    and jk: "cols ! j = upper (fst (columns df ! k))"
  shows "tables (snd (insert_dataframe_oracle lib srv (normalize_dataframe_for_oracle lib df)
                        tn bs st)) tn ! (length (tables st tn) + i) ! j =
           fst (clean_value lib tn (normalize_cell lib (columns df ! k) (rows df ! i ! k))
                  (cols ! j))"
    and "set (snd (clean_value lib tn (normalize_cell lib (columns df ! k) (rows df ! i ! k))
                     (cols ! j)))
           \<subseteq> set (log (snd (insert_dataframe_oracle lib srv
                               (normalize_dataframe_for_oracle lib df) tn bs st)))"
proof -
  let ?ndf = "normalize_dataframe_for_oracle lib df"
  let ?L = "map (\<lambda>c. upper (fst c)) (columns df)"
  let ?N = "\<lambda>r. map (\<lambda>(col, v). normalize_cell lib col v) (zip (columns df) r)"
  let ?r = "rows df ! i"
  have d': "distinct (map (\<lambda>c. upper (fst c)) (columns ?ndf))"
    using d by (simp only: normalize_columns_upper)
  note S = insert_dataframe_oracle_stored [OF tc acc d', of lib bs st,
             unfolded normalize_columns_upper normalize_rows]
  have cell: "row_get ?L (?N ?r) (cols ! j) = normalize_cell lib (columns df ! k) (?r ! k)"
    unfolding jk by (rule normalized_row_get [OF d k wf])
  have "tables (snd (insert_dataframe_oracle lib srv ?ndf tn bs st)) tn
          ! (length (tables st tn) + i) ! j =
        fst (clean_value lib tn (row_get ?L (?N ?r) (cols ! j)) (cols ! j))"
    using i j by (simp add: S(2) nth_append)
  then show "tables (snd (insert_dataframe_oracle lib srv ?ndf tn bs st)) tn
          ! (length (tables st tn) + i) ! j =
        fst (clean_value lib tn (normalize_cell lib (columns df ! k) (?r ! k)) (cols ! j))"
    by (simp only: cell)
  have "set (snd (clean_value lib tn (row_get ?L (?N ?r) (cols ! j)) (cols ! j)))
          \<subseteq> set (log (snd (insert_dataframe_oracle lib srv ?ndf tn bs st)))"
  proof
    fix x
    assume x: "x \<in> set (snd (clean_value lib tn (row_get ?L (?N ?r) (cols ! j)) (cols ! j)))"
    have r: "?r \<in> set (rows df)" using i by simp
    have c: "cols ! j \<in> set cols" using j by simp
    from x r c show "x \<in> set (log (snd (insert_dataframe_oracle lib srv ?ndf tn bs st)))"
      unfolding S(3) by (auto intro!: bexI [of _ ?r] bexI [of _ "cols ! j"])
  qed
  then show "set (snd (clean_value lib tn (normalize_cell lib (columns df ! k) (?r ! k))
                     (cols ! j)))
           \<subseteq> set (log (snd (insert_dataframe_oracle lib srv ?ndf tn bs st)))"
    by (simp only: cell)
qed

text \<open>
  Claim C7, as the code has it. For a string cell of an input column that reaches the
  insert (its upper-cased label is a destination column of the table), cleaned by the
  normalisation step and then by \<open>clean_value\<close>, the first conjunct gives the result in
  every case. In particular: the string \<open>12,5\<close> in a numeric column becomes the float
  that \<open>float\<close> returns for \<open>12.5\<close>; a string that is, in lower case and trimmed, \<open>none\<close>,
  \<open>null\<close> or empty becomes null in any column; the strings \<open>nan\<close> and \<open>NaN\<close>, spelled
  exactly so, become null in any column of dtype object; every other string that is
  \<open>nan\<close> in lower case and trimmed is not recognised as null: in a text column it is
  stored as its trimmed text, and in a numeric column it becomes whatever \<open>float\<close>
  returns for it; a string that fails numeric parsing in a numeric column becomes null
  and one error is logged. No cell aborts its row or its batch: when the column labels
  are distinct and the server accepts every batch, the insert returns the number of rows
  of the dataframe, the table receives one row for each row of the dataframe, holding at
  every destination column the cleaned value of the row's own cell, and the log receives
  the errors of all cells; so every stored cell is the cleaned value of the input cell
  it comes from, whatever the other cells of its row are.
\<close>

theorem cell_cleaning:
  "TABLE_COLUMNS tn = Some cols \<and> upper c \<in> set cols \<longrightarrow>
     clean_value lib tn (normalize_cell lib (c, obj) (PyStr s)) (upper c) =
       (if obj \<and> s \<in> {''nan'', ''NaN''} then (PyNone, [])
        else if lower (strip s) \<in> {''none'', ''null'', []} then (PyNone, [])
        else if is_number_column tn (upper c) then
          (case float_of_str lib (replace_comma (strip s)) of
             Some y \<Rightarrow> (PyFloat y, [])
           | None \<Rightarrow>
               (PyNone,
                [InvalidNumeric tn (upper c) (PyStr (if obj then replace_comma s else s))]))
        else (PyStr (strip (if obj then replace_comma s else s)), [])) \<and>
     (is_number_column tn (upper c) \<and> float_of_str lib ''12.5'' = Some x \<longrightarrow>
        clean_value lib tn (normalize_cell lib (c, obj) (PyStr ''12,5'')) (upper c) =
          (PyFloat x, [])) \<and>
     (lower (strip s) \<in> {''none'', ''null'', []} \<longrightarrow>
        clean_value lib tn (normalize_cell lib (c, obj) (PyStr s)) (upper c) = (PyNone, [])) \<and>
     (s \<in> {''nan'', ''NaN''} \<longrightarrow>
        clean_value lib tn (normalize_cell lib (c, True) (PyStr s)) (upper c) = (PyNone, [])) \<and>
     (lower (strip s) = ''nan'' \<and> \<not> (obj \<and> s \<in> {''nan'', ''NaN''}) \<longrightarrow>
        clean_value lib tn (normalize_cell lib (c, obj) (PyStr s)) (upper c) =
          (if is_number_column tn (upper c) then
             (case float_of_str lib (strip s) of
                Some y \<Rightarrow> (PyFloat y, [])
              | None \<Rightarrow> (PyNone, [InvalidNumeric tn (upper c) (PyStr s)]))
           else (PyStr (strip s), []))) \<and>
     (is_number_column tn (upper c) \<and>
      normalize_cell lib (c, obj) (PyStr s) = PyStr s' \<and>
      lower (strip s') \<notin> {''none'', ''null'', []} \<and>
      float_of_str lib (replace_comma (strip s')) = None \<longrightarrow>
        clean_value lib tn (normalize_cell lib (c, obj) (PyStr s)) (upper c) =
          (PyNone, [InvalidNumeric tn (upper c) (PyStr s')])) \<and>
     ((\<forall>b. executemany srv tn b = None) \<and>
      distinct (map (\<lambda>c. upper (fst c)) (columns df)) \<longrightarrow>
        fst (insert_dataframe_oracle lib srv df tn bs st) = Inr (length (rows df)) \<and>
        tables (snd (insert_dataframe_oracle lib srv df tn bs st)) tn =
          tables st tn @
          map (\<lambda>r. map (\<lambda>col. fst (clean_value lib tn
                          (row_get (map (\<lambda>c. upper (fst c)) (columns df)) r col) col)) cols)
              (rows df) \<and>
        log (snd (insert_dataframe_oracle lib srv df tn bs st)) =
          log st @
          concat (map (\<lambda>r. concat (map (\<lambda>col. snd (clean_value lib tn
                          (row_get (map (\<lambda>c. upper (fst c)) (columns df)) r col) col)) cols))
                      (rows df))) \<and>
     ((\<forall>b. executemany srv tn b = None) \<and>
      distinct (map (\<lambda>c. upper (fst c)) (columns df)) \<and>
      i < length (rows df) \<and> length (rows df ! i) = length (columns df) \<and>
      k < length (columns df) \<and> j < length cols \<and>
      cols ! j = upper (fst (columns df ! k)) \<longrightarrow>
        tables (snd (insert_dataframe_oracle lib srv (normalize_dataframe_for_oracle lib df)
                       tn bs st)) tn ! (length (tables st tn) + i) ! j =
          fst (clean_value lib tn (normalize_cell lib (columns df ! k) (rows df ! i ! k))
                 (cols ! j)) \<and>
        set (snd (clean_value lib tn (normalize_cell lib (columns df ! k) (rows df ! i ! k))
                    (cols ! j)))
          \<subseteq> set (log (snd (insert_dataframe_oracle lib srv
                              (normalize_dataframe_for_oracle lib df) tn bs st))))"
proof (intro impI conjI; (elim conjE)?)
  assume tc: "TABLE_COLUMNS tn = Some cols" and u: "upper c \<in> set cols"
  note nd = input_column_not_date [OF tc u]
  show "clean_value lib tn (normalize_cell lib (c, obj) (PyStr s)) (upper c) =
       (if obj \<and> s \<in> {''nan'', ''NaN''} then (PyNone, [])
        else if lower (strip s) \<in> {''none'', ''null'', []} then (PyNone, [])
        else if is_number_column tn (upper c) then
          (case float_of_str lib (replace_comma (strip s)) of
             Some y \<Rightarrow> (PyFloat y, [])
           | None \<Rightarrow>
               (PyNone,
                [InvalidNumeric tn (upper c) (PyStr (if obj then replace_comma s else s))]))
        else (PyStr (strip (if obj then replace_comma s else s)), []))"
    by (rule clean_string_cell [OF nd])
  {
    assume "is_number_column tn (upper c)" "float_of_str lib ''12.5'' = Some x"
    then show "clean_value lib tn (normalize_cell lib (c, obj) (PyStr ''12,5'')) (upper c) =
          (PyFloat x, [])"
      by (rule clean_comma_decimal [OF nd])
  }
  {
    assume "lower (strip s) \<in> {''none'', ''null'', []}"
    then show "clean_value lib tn (normalize_cell lib (c, obj) (PyStr s)) (upper c) =
          (PyNone, [])"
      by (rule clean_null_like [OF nd])
  }
  {
    assume "s \<in> {''nan'', ''NaN''}"
    then show "clean_value lib tn (normalize_cell lib (c, True) (PyStr s)) (upper c) =
          (PyNone, [])"
      by (rule clean_exact_nan [OF nd])
  }
  {
    assume "lower (strip s) = ''nan''" "\<not> (obj \<and> s \<in> {''nan'', ''NaN''})"
    then show "clean_value lib tn (normalize_cell lib (c, obj) (PyStr s)) (upper c) =
          (if is_number_column tn (upper c) then
             (case float_of_str lib (strip s) of
                Some y \<Rightarrow> (PyFloat y, [])
              | None \<Rightarrow> (PyNone, [InvalidNumeric tn (upper c) (PyStr s)]))
           else (PyStr (strip s), []))"
      by (rule clean_nan_like [OF nd])
  }
  {
    assume "is_number_column tn (upper c)" "normalize_cell lib (c, obj) (PyStr s) = PyStr s'"
      "lower (strip s') \<notin> {''none'', ''null'', []}"
      "float_of_str lib (replace_comma (strip s')) = None"
    then show "clean_value lib tn (normalize_cell lib (c, obj) (PyStr s)) (upper c) =
          (PyNone, [InvalidNumeric tn (upper c) (PyStr s')])"
      by (simp add: clean_invalid_number)
  }
  {
    assume acc: "\<forall>b. executemany srv tn b = None"
      and d: "distinct (map (\<lambda>c. upper (fst c)) (columns df))"
    note S = insert_dataframe_oracle_stored [OF tc acc d, of lib bs st]
    show "fst (insert_dataframe_oracle lib srv df tn bs st) = Inr (length (rows df))"
      by (rule S(1))
    show "tables (snd (insert_dataframe_oracle lib srv df tn bs st)) tn =
          tables st tn @
          map (\<lambda>r. map (\<lambda>col. fst (clean_value lib tn
                          (row_get (map (\<lambda>c. upper (fst c)) (columns df)) r col) col)) cols)
              (rows df)"
      by (rule S(2))
    show "log (snd (insert_dataframe_oracle lib srv df tn bs st)) =
          log st @
          concat (map (\<lambda>r. concat (map (\<lambda>col. snd (clean_value lib tn
                          (row_get (map (\<lambda>c. upper (fst c)) (columns df)) r col) col)) cols))
                      (rows df))"
      by (rule S(3))
    assume i: "i < length (rows df)" and wf: "length (rows df ! i) = length (columns df)"
      and k: "k < length (columns df)" and j: "j < length cols"
      and jk: "cols ! j = upper (fst (columns df ! k))"
    note C = stored_cell [OF tc acc d i wf k j jk, of lib bs st]
    show "tables (snd (insert_dataframe_oracle lib srv (normalize_dataframe_for_oracle lib df)
                       tn bs st)) tn ! (length (tables st tn) + i) ! j =
          fst (clean_value lib tn (normalize_cell lib (columns df ! k) (rows df ! i ! k))
                 (cols ! j))"
      by (rule C(1))
    show "set (snd (clean_value lib tn (normalize_cell lib (columns df ! k) (rows df ! i ! k))
                    (cols ! j)))
          \<subseteq> set (log (snd (insert_dataframe_oracle lib srv
                              (normalize_dataframe_for_oracle lib df) tn bs st)))"
      by (rule C(2))
  }
qed

theorem cell_cleaning_witness:
  "clean_value example_lib ''MXF_TMP_PIS_COFINS''
      (normalize_cell example_lib (''pis_alq_e'', True) (PyStr ''12,5'')) (upper ''pis_alq_e'') =
     (PyFloat (Num (25 / 2)), []) \<and>
   clean_value example_lib ''MXF_TMP_PIS_COFINS''
      (normalize_cell example_lib (''pis_alq_e'', True) (PyStr '' Null '')) (upper ''pis_alq_e'') =
     (PyNone, []) \<and>
   clean_value example_lib ''MXF_TMP_PIS_COFINS''
      (normalize_cell example_lib (''pis_alq_e'', True) (PyStr ''NaN'')) (upper ''pis_alq_e'') =
     (PyNone, []) \<and>
   clean_value example_lib ''MXF_TMP_PIS_COFINS''
      (normalize_cell example_lib (''pis_alq_e'', True) (PyStr ''NAN'')) (upper ''pis_alq_e'') =
     (PyFloat NaN, []) \<and>
   clean_value example_lib ''MXF_TMP_PIS_COFINS''
      (normalize_cell example_lib (''ean'', True) (PyStr '' nan '')) (upper ''ean'') =
     (PyStr ''nan'', []) \<and>
   clean_value example_lib ''MXF_TMP_PIS_COFINS''
      (normalize_cell example_lib (''pis_alq_e'', True) (PyStr ''not-a-number''))
      (upper ''pis_alq_e'') =
     (PyNone, [InvalidNumeric ''MXF_TMP_PIS_COFINS'' ''PIS_ALQ_E'' (PyStr ''not-a-number'')]) \<and>
   fst (insert_dataframe_oracle example_lib example_server
          (normalize_dataframe_for_oracle example_lib (the (example_frames ''pis_cofins'')))
          ''MXF_TMP_PIS_COFINS'' 5000 example_session) = Inr 2 \<and>
   tables (snd (insert_dataframe_oracle example_lib example_server
          (normalize_dataframe_for_oracle example_lib (the (example_frames ''pis_cofins'')))
          ''MXF_TMP_PIS_COFINS'' 5000 example_session)) ''MXF_TMP_PIS_COFINS'' =
     [[PyStr ''1001'', PyStr ''789'', PyNone, PyNone, PyNone, PyFloat (Num (25 / 2)),
       PyNone, PyNone, PyNone, PyNone, PyNone, PyNone, PyNone],
      [PyStr ''1002'', PyNone, PyNone, PyNone, PyNone, PyNone,
       PyNone, PyNone, PyNone, PyNone, PyNone, PyNone, PyNone]] \<and>
   log (snd (insert_dataframe_oracle example_lib example_server
          (normalize_dataframe_for_oracle example_lib (the (example_frames ''pis_cofins'')))
          ''MXF_TMP_PIS_COFINS'' 5000 example_session)) =
     [InvalidNumeric ''MXF_TMP_PIS_COFINS'' ''PIS_ALQ_E'' (PyStr ''not-a-number'')] \<and>
   tables (snd (insert_dataframe_oracle example_lib example_server
          (normalize_dataframe_for_oracle example_lib (the (example_frames ''pis_cofins'')))
          ''MXF_TMP_PIS_COFINS'' 5000 example_session)) ''MXF_TMP_PIS_COFINS'' ! 1 ! 0 =
     PyStr ''1002''"
proof -
  let ?tn = "''MXF_TMP_PIS_COFINS''"
  let ?c = "''pis_alq_e''"
  let ?cols = "the (TABLE_COLUMNS ?tn)"
  let ?raw = "the (example_frames ''pis_cofins'')"
  let ?df = "normalize_dataframe_for_oracle example_lib ?raw"
  let ?ins = "insert_dataframe_oracle example_lib example_server ?df ?tn 5000 example_session"
  have tc: "TABLE_COLUMNS ?tn = Some ?cols"
    by (simp add: TABLE_COLUMNS_def)
  have u: "upper ?c \<in> set ?cols" by code_simp
  have ue: "upper ''ean'' \<in> set ?cols" by code_simp
  have up: "upper ?c = ''PIS_ALQ_E''" by code_simp
  have num: "is_number_column ?tn (upper ?c)" by code_simp
  have f: "float_of_str example_lib ''12.5'' = Some (Num (25 / 2))"
    by (simp add: example_lib_def)
  have nl: "lower (strip '' Null '') \<in> {''none'', ''null'', []}" by code_simp
  have nan: "''NaN'' \<in> {''nan'', ''NaN''}" by simp
  have nc: "normalize_cell example_lib (?c, True) (PyStr ''not-a-number'') =
              PyStr ''not-a-number''" by code_simp
  have nn: "lower (strip ''not-a-number'') \<notin> {''none'', ''null'', []}" by code_simp
  have nf: "float_of_str example_lib (replace_comma (strip ''not-a-number'')) = None"
    by code_simp
  have acc: "\<forall>b. executemany example_server ?tn b = None" by (simp add: example_server_def)
  have dist: "distinct (map (\<lambda>c. upper (fst c)) (columns ?df))" by code_simp
  have distraw: "distinct (map (\<lambda>c. upper (fst c)) (columns ?raw))" by code_simp
  have len: "length (rows ?df) = 2" by code_simp
  note T = cell_cleaning [where tn = ?tn and cols = ?cols and c = ?c and lib = example_lib,
             THEN mp, OF conjI [OF tc u]]
  note E = cell_cleaning [where tn = ?tn and cols = ?cols and c = "''ean''"
             and lib = example_lib and obj = True and s = "'' nan ''",
             THEN mp, OF conjI [OF tc ue]]
  have a: "clean_value example_lib ?tn
      (normalize_cell example_lib (?c, True) (PyStr ''12,5'')) (upper ?c) =
     (PyFloat (Num (25 / 2)), [])"
    using T [THEN conjunct2, THEN conjunct1, THEN mp, OF conjI [OF num f]] .
  have b: "clean_value example_lib ?tn
      (normalize_cell example_lib (?c, True) (PyStr '' Null '')) (upper ?c) = (PyNone, [])"
    using T [THEN conjunct2, THEN conjunct2, THEN conjunct1, THEN mp, OF nl] .
  have c: "clean_value example_lib ?tn
      (normalize_cell example_lib (?c, True) (PyStr ''NaN'')) (upper ?c) = (PyNone, [])"
    using T [THEN conjunct2, THEN conjunct2, THEN conjunct2, THEN conjunct1, THEN mp, OF nan] .
  have l1: "lower (strip ''NAN'') = ''nan''" by code_simp
  have n1: "\<not> (True \<and> ''NAN'' \<in> {''nan'', ''NaN''})" by simp
  have s1: "strip ''NAN'' = ''NAN''" by code_simp
  have f1: "float_of_str example_lib ''NAN'' = Some NaN" by (simp add: example_lib_def)
  have d1: "clean_value example_lib ?tn
      (normalize_cell example_lib (?c, True) (PyStr ''NAN'')) (upper ?c) = (PyFloat NaN, [])"
    using T [THEN conjunct2, THEN conjunct2, THEN conjunct2, THEN conjunct2, THEN conjunct1,
             THEN mp, OF conjI [OF l1 n1]]
    by (simp add: num s1 f1)
  have l2: "lower (strip '' nan '') = ''nan''" by code_simp
  have n2: "\<not> (True \<and> '' nan '' \<in> {''nan'', ''NaN''})" by simp
  have s2: "strip '' nan '' = ''nan''" by code_simp
  have t2: "\<not> is_number_column ?tn (upper ''ean'')" by code_simp
  have d2: "clean_value example_lib ?tn
      (normalize_cell example_lib (''ean'', True) (PyStr '' nan '')) (upper ''ean'') =
     (PyStr ''nan'', [])"
    using E [THEN conjunct2, THEN conjunct2, THEN conjunct2, THEN conjunct2, THEN conjunct1,
             THEN mp, OF conjI [OF l2 n2]]
    by (simp add: t2 s2)
  have e: "clean_value example_lib ?tn
      (normalize_cell example_lib (?c, True) (PyStr ''not-a-number'')) (upper ?c) =
     (PyNone, [InvalidNumeric ?tn (upper ?c) (PyStr ''not-a-number'')])"
    using T [THEN conjunct2, THEN conjunct2, THEN conjunct2, THEN conjunct2, THEN conjunct2,
             THEN conjunct1, THEN mp, OF conjI [OF num conjI [OF nc conjI [OF nn nf]]]] .
  note F = T [THEN conjunct2, THEN conjunct2, THEN conjunct2, THEN conjunct2, THEN conjunct2,
              THEN conjunct2, THEN conjunct1, THEN mp, OF conjI [OF acc dist]]
  have g1: "fst ?ins = Inr (length (rows ?df))"
    using F [THEN conjunct1] .
  have r2: "tables example_session ?tn @
          map (\<lambda>r. map (\<lambda>col. fst (clean_value example_lib ?tn
                          (row_get (map (\<lambda>c. upper (fst c)) (columns ?df)) r col) col)) ?cols)
              (rows ?df) =
     [[PyStr ''1001'', PyStr ''789'', PyNone, PyNone, PyNone, PyFloat (Num (25 / 2)),
       PyNone, PyNone, PyNone, PyNone, PyNone, PyNone, PyNone],
      [PyStr ''1002'', PyNone, PyNone, PyNone, PyNone, PyNone,
       PyNone, PyNone, PyNone, PyNone, PyNone, PyNone, PyNone]]"
    by code_simp
  have g2: "tables (snd ?ins) ?tn =
     [[PyStr ''1001'', PyStr ''789'', PyNone, PyNone, PyNone, PyFloat (Num (25 / 2)),
       PyNone, PyNone, PyNone, PyNone, PyNone, PyNone, PyNone],
      [PyStr ''1002'', PyNone, PyNone, PyNone, PyNone, PyNone,
       PyNone, PyNone, PyNone, PyNone, PyNone, PyNone, PyNone]]"
    using F [THEN conjunct2, THEN conjunct1] r2 by (rule trans)
  have r3: "log example_session @
          concat (map (\<lambda>r. concat (map (\<lambda>col. snd (clean_value example_lib ?tn
                          (row_get (map (\<lambda>c. upper (fst c)) (columns ?df)) r col) col)) ?cols))
                      (rows ?df)) =
     [InvalidNumeric ?tn ''PIS_ALQ_E'' (PyStr ''not-a-number'')]"
    by code_simp
  have g3: "log (snd ?ins) = [InvalidNumeric ?tn ''PIS_ALQ_E'' (PyStr ''not-a-number'')]"
    using F [THEN conjunct2, THEN conjunct2] r3 by (rule trans)
  have i: "(1 :: nat) < length (rows ?raw)" by code_simp
  have wf: "length (rows ?raw ! 1) = length (columns ?raw)" by code_simp
  have k: "(0 :: nat) < length (columns ?raw)" by code_simp
  have j: "(0 :: nat) < length ?cols" by code_simp
  have jk: "?cols ! 0 = upper (fst (columns ?raw ! 0))" by code_simp
  note H = cell_cleaning [where tn = ?tn and cols = ?cols and c = ?c and lib = example_lib
             and srv = example_server and df = ?raw and bs = 5000 and st = example_session
             and i = 1 and k = 0 and j = 0,
             THEN mp, OF conjI [OF tc u],
             THEN conjunct2, THEN conjunct2, THEN conjunct2, THEN conjunct2, THEN conjunct2,
             THEN conjunct2, THEN conjunct2, THEN mp,
             OF conjI [OF acc conjI [OF distraw conjI [OF i conjI [OF wf conjI [OF k
                  conjI [OF j jk]]]]]],
             THEN conjunct1]
  have r4: "fst (clean_value example_lib ?tn
              (normalize_cell example_lib (columns ?raw ! 0) (rows ?raw ! 1 ! 0)) (?cols ! 0)) =
            PyStr ''1002''"
    by code_simp
  have z: "length (tables example_session ?tn) + 1 = 1" by (simp add: example_session_def)
  have g4: "tables (snd ?ins) ?tn ! 1 ! 0 = PyStr ''1002''"
    using H r4 by (simp only: z)
  from a b c d1 d2 e g1 g2 g3 g4 show ?thesis by (simp only: up len)
qed

text \<open>
  The claim as stated fails for the other spellings of \<open>nan\<close>: in the text column \<open>EAN\<close>
  the cell \<open>NAN\<close>, which is \<open>nan\<close> in lower case, is inserted as the text \<open>NAN\<close>.
\<close>

theorem upper_case_nan_text_is_kept:
  "lower (strip ''NAN'') = ''nan'' \<and>
   clean_value example_lib ''MXF_TMP_PIS_COFINS''
      (normalize_cell example_lib (''ean'', True) (PyStr ''NAN'')) (upper ''ean'') =
     (PyStr ''NAN'', [])"
  by code_simp

section \<open>Properties of the column contract\<close>








end
